theory Spec2Isabelle
  imports Main "HOL-Library.AList" "HOL-Library.Multiset"
begin

section \<open>Python values and exceptions\<close>

text \<open>
  The program is \<^verbatim>\<open>src/app.py\<close>. A colour token and a move text are Python strings, a
  face is a list of rows, a row a list of tokens, and a cube is a \<^verbatim>\<open>dict\<close> from face
  names to faces: an association list in insertion order, looked up with \<open>map_of\<close>
  and assigned with \<open>AList.update\<close> (which keeps the position of an existing key, as a
  Python dict does). The types fix what \<^verbatim>\<open>isinstance\<close> tests in the source: a face is
  always a list of rows and a row always a list of tokens.

  An exception is a value: its Python class, with the message where the source
  builds one.
\<close>

type_synonym face = "string list list"
type_synonym cube = "(string \<times> face) list"

datatype error =
    ValueError string
  | KeyError string
  | IndexError
  | NameError string
  | TypeError
  | Exception string
  | DanglingRef

abbreviation apo :: string where
  "apo \<equiv> [CHR 0x27]"

definition is_dict :: "cube \<Rightarrow> bool" where
  "is_dict cube = distinct (map fst cube)"

fun bindE :: "error + 'a \<Rightarrow> ('a \<Rightarrow> error + 'b) \<Rightarrow> error + 'b" where
  "bindE (Inl e) f = Inl e"
| "bindE (Inr x) f = f x"

fun foldE :: "('a \<Rightarrow> 's \<Rightarrow> error + 's) \<Rightarrow> 'a list \<Rightarrow> 's \<Rightarrow> error + 's" where
  "foldE f [] s = Inr s"
| "foldE f (x # xs) s = bindE (f x s) (foldE f xs)"

fun mapE :: "('a \<Rightarrow> error + 'b) \<Rightarrow> 'a list \<Rightarrow> error + 'b list" where
  "mapE f [] = Inr []"
| "mapE f (x # xs) = bindE (f x) (\<lambda>y. bindE (mapE f xs) (\<lambda>ys. Inr (y # ys)))"

fun repeatE :: "nat \<Rightarrow> ('s \<Rightarrow> error + 's) \<Rightarrow> 's \<Rightarrow> error + 's" where
  "repeatE 0 f s = Inr s"
| "repeatE (Suc n) f s = bindE (f s) (repeatE n f)"

text \<open>\<^verbatim>\<open>d[k]\<close>, \<^verbatim>\<open>xs[i]\<close> and \<^verbatim>\<open>xs[i] = v\<close> with the exceptions Python raises. Every
  index in the source is a literal or \<^verbatim>\<open>i\<close>, \<^verbatim>\<open>2-i\<close> with \<^verbatim>\<open>i\<close> in \<^verbatim>\<open>range(3)\<close>, so
  indices are naturals.\<close>

definition dict_get :: "cube \<Rightarrow> string \<Rightarrow> error + face" where
  "dict_get cube k = (case map_of cube k of None \<Rightarrow> Inl (KeyError k) | Some v \<Rightarrow> Inr v)"

definition dict_set :: "cube \<Rightarrow> string \<Rightarrow> face \<Rightarrow> cube" where
  "dict_set cube k v = AList.update k v cube"

definition list_get :: "'a list \<Rightarrow> nat \<Rightarrow> error + 'a" where
  "list_get xs i = (if i < length xs then Inr (xs ! i) else Inl IndexError)"

definition list_set :: "'a list \<Rightarrow> nat \<Rightarrow> 'a \<Rightarrow> error + 'a list" where
  "list_set xs i v = (if i < length xs then Inr (xs[i := v]) else Inl IndexError)"

text \<open>\<^verbatim>\<open>cube[f][r]\<close>, \<^verbatim>\<open>cube[f][r][c]\<close>, \<^verbatim>\<open>cube[f][r] = row\<close> and \<^verbatim>\<open>cube[f][r][c] = v\<close>.\<close>

definition get_row :: "cube \<Rightarrow> string \<Rightarrow> nat \<Rightarrow> error + string list" where
  "get_row cube f r = bindE (dict_get cube f) (\<lambda>fc. list_get fc r)"

definition get_st :: "cube \<Rightarrow> string \<Rightarrow> nat \<Rightarrow> nat \<Rightarrow> error + string" where
  "get_st cube f r c = bindE (get_row cube f r) (\<lambda>row. list_get row c)"

definition set_row :: "cube \<Rightarrow> string \<Rightarrow> nat \<Rightarrow> string list \<Rightarrow> error + cube" where
  "set_row cube f r row =
     bindE (dict_get cube f) (\<lambda>fc.
     bindE (list_set fc r row) (\<lambda>fc'.
     Inr (dict_set cube f fc')))"

definition set_st :: "cube \<Rightarrow> string \<Rightarrow> nat \<Rightarrow> nat \<Rightarrow> string \<Rightarrow> error + cube" where
  "set_st cube f r c v =
     bindE (get_row cube f r) (\<lambda>row.
     bindE (list_set row c v) (\<lambda>row'.
     set_row cube f r row'))"

section \<open>Validator\<close>

definition valid_faces :: "string set" where
  "valid_faces = {''U'', ''D'', ''F'', ''B'', ''L'', ''R''}"

text \<open>The inner loop \<^verbatim>\<open>for row in cube[face]\<close> of \<^verbatim>\<open>validate_cube\<close>.\<close>

fun validate_rows :: "string \<Rightarrow> face \<Rightarrow> string set \<Rightarrow> error + string set" where
  "validate_rows face [] colors = Inr colors"
| "validate_rows face (row # rows) colors =
     (if length row \<noteq> 3
      then Inl (ValueError (''Face '' @ face @ '' rows must contain 3 stickers''))
      else validate_rows face rows (colors \<union> set row))"

text \<open>The outer loop \<^verbatim>\<open>for face in cube\<close>, over the keys in insertion order.\<close>

fun validate_faces :: "cube \<Rightarrow> string list \<Rightarrow> string set \<Rightarrow> error + string set" where
  "validate_faces cube [] colors = Inr colors"
| "validate_faces cube (face # faces) colors =
     bindE (dict_get cube face) (\<lambda>fc.
       if length fc \<noteq> 3
       then Inl (ValueError (''Face '' @ face @ '' must be a 3x3 matrix''))
       else bindE (validate_rows face fc colors) (validate_faces cube faces))"

definition validate_cube :: "cube \<Rightarrow> error + bool" where
  "validate_cube cube =
     (if set (map fst cube) \<noteq> valid_faces
      then Inl (ValueError ''Cube must have exactly U, D, F, B, L, R faces'')
      else bindE (validate_faces cube (map fst cube) {}) (\<lambda>colors.
        if card colors > 6
        then Inl (ValueError ''Cube contains more than 6 distinct colors'')
        else Inr True))"

section \<open>Move engine\<close>

text \<open>\<^verbatim>\<open>zip(*rows)\<close>: the columns of \<open>rows\<close>, cut at the shortest row.\<close>

definition zip_star :: "'a list list \<Rightarrow> 'a list list" where
  "zip_star rows =
     (if rows = [] then []
      else map (\<lambda>j. map (\<lambda>row. row ! j) rows) [0..<min_list (map length rows)])"

definition rotate_face :: "face \<Rightarrow> face" where
  "rotate_face fc = zip_star (rev fc)"

text \<open>\<^verbatim>\<open>cube[f][r][c] = cube[f'][r'][c']\<close>: the right-hand side is read first.\<close>

definition copy_st :: "cube \<Rightarrow> string \<times> nat \<times> nat \<Rightarrow> string \<times> nat \<times> nat \<Rightarrow> error + cube" where
  "copy_st cube dst src =
     (case (dst, src) of ((f, r, c), (f', r', c')) \<Rightarrow>
        bindE (get_st cube f' r' c') (\<lambda>v. set_st cube f r c v))"

text \<open>\<^verbatim>\<open>cube[f][r] = cube[f'][r'][:]\<close>.\<close>

definition copy_row :: "cube \<Rightarrow> string \<times> nat \<Rightarrow> string \<times> nat \<Rightarrow> error + cube" where
  "copy_row cube dst src =
     (case (dst, src) of ((f, r), (f', r')) \<Rightarrow>
        bindE (get_row cube f' r') (\<lambda>row. set_row cube f r row))"

text \<open>The six branches of the loop body of \<^verbatim>\<open>apply_move\<close>, after the face itself
  has been rotated.\<close>

definition cycle_U :: "cube \<Rightarrow> error + cube" where
  "cycle_U cube =
     bindE (get_row cube ''F'' 0) (\<lambda>tmp.
     bindE (copy_row cube (''F'', 0) (''R'', 0)) (\<lambda>cube.
     bindE (copy_row cube (''R'', 0) (''B'', 0)) (\<lambda>cube.
     bindE (copy_row cube (''B'', 0) (''L'', 0)) (\<lambda>cube.
     set_row cube ''L'' 0 tmp))))"

definition cycle_D :: "cube \<Rightarrow> error + cube" where
  "cycle_D cube =
     bindE (get_row cube ''F'' 2) (\<lambda>tmp.
     bindE (copy_row cube (''F'', 2) (''L'', 2)) (\<lambda>cube.
     bindE (copy_row cube (''L'', 2) (''B'', 2)) (\<lambda>cube.
     bindE (copy_row cube (''B'', 2) (''R'', 2)) (\<lambda>cube.
     set_row cube ''R'' 2 tmp))))"

definition cycle_F :: "cube \<Rightarrow> error + cube" where
  "cycle_F cube =
     bindE (mapE (\<lambda>i. get_st cube ''U'' 2 i) [0, 1, 2]) (\<lambda>tmp.
     foldE (\<lambda>i cube.
       bindE (copy_st cube (''U'', 2, i) (''L'', 2 - i, 2)) (\<lambda>cube.
       bindE (copy_st cube (''L'', 2 - i, 2) (''D'', 0, 2 - i)) (\<lambda>cube.
       bindE (copy_st cube (''D'', 0, 2 - i) (''R'', i, 0)) (\<lambda>cube.
       bindE (list_get tmp i) (\<lambda>v.
       set_st cube ''R'' i 0 v))))) [0, 1, 2] cube)"

definition cycle_B :: "cube \<Rightarrow> error + cube" where
  "cycle_B cube =
     bindE (mapE (\<lambda>i. get_st cube ''U'' 0 i) [0, 1, 2]) (\<lambda>tmp.
     foldE (\<lambda>i cube.
       bindE (copy_st cube (''U'', 0, i) (''R'', i, 2)) (\<lambda>cube.
       bindE (copy_st cube (''R'', i, 2) (''D'', 2, 2 - i)) (\<lambda>cube.
       bindE (copy_st cube (''D'', 2, 2 - i) (''L'', 2 - i, 0)) (\<lambda>cube.
       bindE (list_get tmp i) (\<lambda>v.
       set_st cube ''L'' (2 - i) 0 v))))) [0, 1, 2] cube)"

definition cycle_L :: "cube \<Rightarrow> error + cube" where
  "cycle_L cube =
     bindE (mapE (\<lambda>i. get_st cube ''U'' i 0) [0, 1, 2]) (\<lambda>tmp.
     foldE (\<lambda>i cube.
       bindE (copy_st cube (''U'', i, 0) (''B'', 2 - i, 2)) (\<lambda>cube.
       bindE (copy_st cube (''B'', 2 - i, 2) (''D'', i, 0)) (\<lambda>cube.
       bindE (copy_st cube (''D'', i, 0) (''F'', i, 0)) (\<lambda>cube.
       bindE (list_get tmp i) (\<lambda>v.
       set_st cube ''F'' i 0 v))))) [0, 1, 2] cube)"

definition cycle_R :: "cube \<Rightarrow> error + cube" where
  "cycle_R cube =
     bindE (mapE (\<lambda>i. get_st cube ''U'' i 2) [0, 1, 2]) (\<lambda>tmp.
     foldE (\<lambda>i cube.
       bindE (copy_st cube (''U'', i, 2) (''F'', i, 2)) (\<lambda>cube.
       bindE (copy_st cube (''F'', i, 2) (''D'', i, 2)) (\<lambda>cube.
       bindE (copy_st cube (''D'', i, 2) (''B'', 2 - i, 0)) (\<lambda>cube.
       bindE (list_get tmp i) (\<lambda>v.
       set_st cube ''B'' (2 - i) 0 v))))) [0, 1, 2] cube)"

text \<open>One pass of the body of \<^verbatim>\<open>for _ in range(turns)\<close>.\<close>

definition quarter_turn :: "string \<Rightarrow> cube \<Rightarrow> error + cube" where
  "quarter_turn face_char cube =
     bindE (dict_get cube face_char) (\<lambda>fc.
       let cube = dict_set cube face_char (rotate_face fc) in
       if face_char = ''U'' then cycle_U cube
       else if face_char = ''D'' then cycle_D cube
       else if face_char = ''F'' then cycle_F cube
       else if face_char = ''B'' then cycle_B cube
       else if face_char = ''L'' then cycle_L cube
       else if face_char = ''R'' then cycle_R cube
       else Inr cube)"

definition move_suffix :: "string \<Rightarrow> string" where
  "move_suffix move = (if length move > 1 then tl move else [])"

definition move_turns :: "string \<Rightarrow> nat" where
  "move_turns suffix =
     (if CHR 0x27 \<in> set suffix then 3 else if CHR ''2'' \<in> set suffix then 2 else 1)"

text \<open>
  \<^verbatim>\<open>apply_move\<close> on cube values. The source deep-copies its argument and assigns into
  the copy; on values the copy is the value and an assignment changes one position.
  This is what the source does to a cube none of whose row objects is shared between two
  positions: \<open>h_apply_move_link\<close> below proves it against \<open>h_apply_move\<close>, the same
  code on an object store, where \<^verbatim>\<open>copy.deepcopy\<close> keeps the sharing of its argument. On
  a cube with a shared row the two differ in the state returned (\<open>shared_rows_store\<close>
  below is such a cube).
\<close>

definition apply_move :: "cube \<Rightarrow> string \<Rightarrow> error + cube" where
  "apply_move cube move =
     (if move = [] \<or> hd move \<notin> set ''UDFBLR''
      then Inl (ValueError (''Invalid move: '' @ move))
      else
        let face_char = [hd move]; suffix = move_suffix move in
        if suffix \<notin> set [[], apo, ''2'']
        then Inl (ValueError (''Invalid move suffix: '' @ suffix))
        else repeatE (move_turns suffix) (quarter_turn face_char) cube)"

definition solved_cube :: cube where
  "solved_cube =
     [(''U'', [[''W'', ''W'', ''W''], [''W'', ''W'', ''W''], [''W'', ''W'', ''W'']]),
      (''D'', [[''Y'', ''Y'', ''Y''], [''Y'', ''Y'', ''Y''], [''Y'', ''Y'', ''Y'']]),
      (''F'', [[''G'', ''G'', ''G''], [''G'', ''G'', ''G''], [''G'', ''G'', ''G'']]),
      (''B'', [[''B'', ''B'', ''B''], [''B'', ''B'', ''B''], [''B'', ''B'', ''B'']]),
      (''L'', [[''O'', ''O'', ''O''], [''O'', ''O'', ''O''], [''O'', ''O'', ''O'']]),
      (''R'', [[''R'', ''R'', ''R''], [''R'', ''R'', ''R''], [''R'', ''R'', ''R'']])]"

section \<open>Structural validity, as the specification words it\<close>

text \<open>A face is a 3\<times>3 grid; the stickers of a cube are read face by face in key
  order; a cube is well formed when its key set is exactly the six face names, every
  face is a 3\<times>3 grid and at most six distinct tokens occur.\<close>

definition grid3 :: "face \<Rightarrow> bool" where
  "grid3 fc = (length fc = 3 \<and> (\<forall>row\<in>set fc. length row = 3))"

definition stickers :: "cube \<Rightarrow> string list" where
  "stickers cube = concat (map (\<lambda>k. concat (the (map_of cube k))) (map fst cube))"

definition well_formed :: "cube \<Rightarrow> bool" where
  "well_formed cube =
     (set (map fst cube) = valid_faces \<and>
      (\<forall>k\<in>set (map fst cube). grid3 (the (map_of cube k))) \<and>
      card (set (stickers cube)) \<le> 6)"

text \<open>The six faces of a cube, by name, and the result of one pass of the loop body.\<close>

definition has_faces :: "cube \<Rightarrow> face \<Rightarrow> face \<Rightarrow> face \<Rightarrow> face \<Rightarrow> face \<Rightarrow> face \<Rightarrow> bool" where
  "has_faces c u d f b l r \<longleftrightarrow>
     map_of c ''U'' = Some u \<and> map_of c ''D'' = Some d \<and> map_of c ''F'' = Some f \<and>
     map_of c ''B'' = Some b \<and> map_of c ''L'' = Some l \<and> map_of c ''R'' = Some r"

definition turned :: "cube \<Rightarrow> string \<Rightarrow> cube \<Rightarrow> bool" where
  "turned c fc c' \<longleftrightarrow> quarter_turn fc c = Inr c' \<and> map fst c' = map fst c"

definition faces6 :: "string list" where
  "faces6 = [''U'', ''D'', ''F'', ''B'', ''L'', ''R'']"


section \<open>Move texts and replay\<close>

text \<open>The grammar of move texts, \<^verbatim>\<open>[UDFBLR]("|'|2)\<close>, the syntactic inverse of a move
  text, and the replay of a move list through \<^verbatim>\<open>apply_move\<close>, which stops at the
  first exception.\<close>

definition move_grammar :: "string \<Rightarrow> bool" where
  "move_grammar m =
     (case m of [] \<Rightarrow> False | f # s \<Rightarrow> f \<in> set ''UDFBLR'' \<and> s \<in> set [[], apo, ''2''])"


fun replay :: "cube \<Rightarrow> string list \<Rightarrow> error + cube" where
  "replay cube [] = Inr cube"
| "replay cube (m # ms) = bindE (apply_move cube m) (\<lambda>cube'. replay cube' ms)"

section \<open>Move optimizer\<close>

text \<open>\<^verbatim>\<open>s[0]\<close> on a string, and the turn count \<^verbatim>\<open>_optimize_solution\<close> reads off a move
  text by looking for the characters \<^verbatim>\<open>'\<close> and \<^verbatim>\<open>2\<close> anywhere in it.\<close>

definition str_head :: "string \<Rightarrow> error + string" where
  "str_head s = (case s of [] \<Rightarrow> Inl IndexError | ch # _ \<Rightarrow> Inr [ch])"

definition opt_turns :: "string \<Rightarrow> nat" where
  "opt_turns move =
     (if CHR 0x27 \<notin> set move \<and> CHR ''2'' \<notin> set move then 1
      else if CHR 0x27 \<in> set move then 3 else 2)"

text \<open>The condition of the \<^verbatim>\<open>if\<close> inside the loop: \<^verbatim>\<open>and\<close> evaluates its right operand
  only when \<^verbatim>\<open>i < n - 1\<close>.\<close>

definition same_face_next :: "string list \<Rightarrow> nat \<Rightarrow> error + bool" where
  "same_face_next solution i =
     (if int i < int (length solution) - 1
      then bindE (str_head (solution ! i)) (\<lambda>a.
           bindE (str_head (solution ! (i + 1))) (\<lambda>b. Inr (a = b)))
      else Inr False)"

text \<open>The \<^verbatim>\<open>while i < n\<close> loop of \<^verbatim>\<open>_optimize_solution\<close>, with its two variables.\<close>

function optimize_loop :: "string list \<Rightarrow> nat \<Rightarrow> string list \<Rightarrow> error + string list" where
  "optimize_loop solution i optimized =
     (if i < length solution then
        (case same_face_next solution i of
           Inl e \<Rightarrow> Inl e
         | Inr True \<Rightarrow>
             (let move1 = solution ! i; move2 = solution ! (i + 1);
                  turns1 = opt_turns move1; turns2 = opt_turns move2;
                  total_turns = (turns1 + turns2) mod 4
              in if total_turns = 0 then optimize_loop solution (i + 2) optimized
                 else (case str_head move1 of
                         Inl e \<Rightarrow> Inl e
                       | Inr face \<Rightarrow>
                           optimize_loop solution (i + 2)
                             (optimized @
                               [if total_turns = 1 then face
                                else if total_turns = 2 then face @ ''2''
                                else face @ apo])))
         | Inr False \<Rightarrow> optimize_loop solution (i + 1) (optimized @ [solution ! i]))
      else Inr optimized)"
  by pat_completeness auto
termination
  by (relation "measure (\<lambda>(solution, i, optimized). length solution - i)") auto

declare optimize_loop.simps [simp del]

definition optimize_solution :: "string list \<Rightarrow> error + string list" where
  "optimize_solution solution = optimize_loop solution 0 []"

text \<open>The optimizer as the specification describes it: one pass from the left; two
  adjacent moves of the same face letter become the move of their summed quarter
  turns modulo 4 (none when the sum is 0), and the pass goes on after the pair.\<close>

definition turn_move :: "char \<Rightarrow> nat \<Rightarrow> string list" where
  "turn_move f t =
     (if t = 0 then [] else if t = 1 then [[f]] else if t = 2 then [[f] @ ''2''] else [[f] @ apo])"

fun merge_pass :: "string list \<Rightarrow> string list" where
  "merge_pass (a # b # rest) =
     (if hd a = hd b
      then turn_move (hd a) ((move_turns (tl a) + move_turns (tl b)) mod 4) @ merge_pass rest
      else a # merge_pass (b # rest))"
| "merge_pass ms = ms"

section \<open>Example states\<close>

text \<open>Three malformed states: seven distinct tokens, a face of four rows, and no
  \<^verbatim>\<open>R\<close> face; and a state that is well formed although no sequence of turns reaches
  it from a solved cube (two stickers of one edge swapped).\<close>

definition cube_seven_colors :: cube where
  "cube_seven_colors = AList.update ''U''
     [[''W'', ''W'', ''W''], [''W'', ''W'', ''W''], [''W'', ''W'', ''P'']] solved_cube"

definition cube_four_rows :: cube where
  "cube_four_rows = AList.update ''F''
     [[''G'', ''G'', ''G''], [''G'', ''G'', ''G''], [''G'', ''G'', ''G''], [''G'', ''G'', ''G'']]
     solved_cube"

definition cube_missing_face :: cube where
  "cube_missing_face = AList.delete ''R'' solved_cube"

definition cube_flipped_edge :: cube where
  "cube_flipped_edge =
     AList.update ''U'' [[''W'', ''W'', ''W''], [''W'', ''W'', ''W''], [''W'', ''G'', ''W'']]
       (AList.update ''F'' [[''G'', ''W'', ''G''], [''G'', ''G'', ''G''], [''G'', ''G'', ''G'']]
          solved_cube)"

section \<open>Computations with state and exceptions\<close>

text \<open>A method of the solver, and an operation on the object store further down, takes
  a state and returns a result or an exception together with the state it leaves.\<close>

type_synonym ('s, 'a) M = "'s \<Rightarrow> (error + 'a) \<times> 's"

definition ret :: "'a \<Rightarrow> ('s, 'a) M" where
  "ret x s = (Inr x, s)"

definition raise :: "error \<Rightarrow> ('s, 'a) M" where
  "raise e s = (Inl e, s)"

text \<open>Sequencing: an exception of the first computation ends the sequence.\<close>

fun continue :: "(error + 'a) \<times> 's \<Rightarrow> ('a \<Rightarrow> ('s, 'b) M) \<Rightarrow> (error + 'b) \<times> 's" where
  "continue (Inl e, s) f = (Inl e, s)"
| "continue (Inr x, s) f = f x s"

definition bindM :: "('s, 'a) M \<Rightarrow> ('a \<Rightarrow> ('s, 'b) M) \<Rightarrow> ('s, 'b) M" where
  "bindM m f s = continue (m s) f"

definition lift :: "error + 'a \<Rightarrow> ('s, 'a) M" where
  "lift r s = (r, s)"

text \<open>\<^verbatim>\<open>try: m except Exception: h\<close>.\<close>

fun handle :: "(error + 'a) \<times> 's \<Rightarrow> (error \<Rightarrow> ('s, 'a) M) \<Rightarrow> (error + 'a) \<times> 's" where
  "handle (Inl e, s) h = h e s"
| "handle (Inr x, s) h = (Inr x, s)"

definition catchM :: "('s, 'a) M \<Rightarrow> (error \<Rightarrow> ('s, 'a) M) \<Rightarrow> ('s, 'a) M" where
  "catchM m h s = handle (m s) h"

fun mapM :: "('a \<Rightarrow> ('s, 'b) M) \<Rightarrow> 'a list \<Rightarrow> ('s, 'b list) M" where
  "mapM f [] h = (ret []) h"
| "mapM f (x # xs) h = (bindM (f x) (\<lambda>y. bindM (mapM f xs) (\<lambda>ys. ret (y # ys)))) h"

fun forM :: "'a list \<Rightarrow> ('a \<Rightarrow> ('s, unit) M) \<Rightarrow> ('s, unit) M" where
  "forM [] f h = (ret ()) h"
| "forM (x # xs) f h = (bindM (f x) (\<lambda>_. forM xs f)) h"

fun repeatM :: "nat \<Rightarrow> ('s, unit) M \<Rightarrow> ('s, unit) M" where
  "repeatM 0 m h = (ret ()) h"
| "repeatM (Suc n) m h = (bindM m (\<lambda>_. repeatM n m)) h"

definition gets :: "('s \<Rightarrow> 'a) \<Rightarrow> ('s, 'a) M" where
  "gets f s = (Inr (f s), s)"


section \<open>Solved test\<close>

text \<open>\<^verbatim>\<open>is_cube_solved\<close>: for each face of \<^verbatim>\<open>'UDFBLR'\<close> in turn, the centre is read and
  the first row holding another token ends the test with \<^verbatim>\<open>False\<close>.\<close>

fun solved_faces :: "cube \<Rightarrow> string list \<Rightarrow> error + bool" where
  "solved_faces c [] = Inr True"
| "solved_faces c (face # fs) =
     bindE (get_st c face 1 1) (\<lambda>center_color.
     bindE (dict_get c face) (\<lambda>fc.
       if list_ex (\<lambda>row. list_ex (\<lambda>sticker. sticker \<noteq> center_color) row) fc
       then Inr False
       else solved_faces c fs))"

definition is_cube_solved :: "cube \<Rightarrow> error + bool" where
  "is_cube_solved c = solved_faces c [''U'', ''D'', ''F'', ''B'', ''L'', ''R'']"

section \<open>Solver\<close>

text \<open>
  The attributes of a \<^verbatim>\<open>CubeSolver\<close> object. Here the cube is held by value: what
  \<^verbatim>\<open>copy.deepcopy\<close> and \<^verbatim>\<open>apply_move\<close> do to objects is the subject of the store model
  below. The methods \<^verbatim>\<open>_apply\<close>, \<^verbatim>\<open>_find_edge\<close>, \<^verbatim>\<open>_solve_white_cross\<close>, ... appear
  without their leading underscore (\<^verbatim>\<open>_apply\<close> as \<open>solver_apply\<close>).
\<close>

record solver =
  cube :: cube
  solution :: "string list"
  face_colors :: "(string \<times> string) list"
  max_moves :: nat
  white_color :: string
  yellow_color :: string

text \<open>\<^verbatim>\<open>__init__\<close>: the six centres are read before anything is validated.\<close>

definition CubeSolver :: "cube \<Rightarrow> error + solver" where
  "CubeSolver c =
     bindE (get_st c ''U'' 1 1) (\<lambda>u.
     bindE (get_st c ''D'' 1 1) (\<lambda>d.
     bindE (get_st c ''F'' 1 1) (\<lambda>f.
     bindE (get_st c ''B'' 1 1) (\<lambda>b.
     bindE (get_st c ''L'' 1 1) (\<lambda>l.
     bindE (get_st c ''R'' 1 1) (\<lambda>r.
     Inr \<lparr>cube = c, solution = [],
          face_colors = [(''U'', u), (''D'', d), (''F'', f), (''B'', b), (''L'', l), (''R'', r)],
          max_moves = 200, white_color = u, yellow_color = d\<rparr>))))))"

text \<open>\<^verbatim>\<open>self.cube[f][r][c]\<close> and \<^verbatim>\<open>self.face_colors[k]\<close>.\<close>

definition cube_st :: "string \<Rightarrow> nat \<Rightarrow> nat \<Rightarrow> (solver, string) M" where
  "cube_st f r c s = lift (get_st (cube s) f r c) s"

definition color_of :: "string \<Rightarrow> (solver, string) M" where
  "color_of k s =
     (case map_of (face_colors s) k of None \<Rightarrow> raise (KeyError k) s | Some v \<Rightarrow> ret v s)"

text \<open>\<^verbatim>\<open>_apply\<close>: the budget is tested once, on entry; then every move of the list is
  applied and appended to the log.\<close>

definition apply_step :: "string \<Rightarrow> (solver, unit) M" where
  "apply_step move s =
     (case apply_move (cube s) move of
        Inl e \<Rightarrow> (Inl e, s)
      | Inr c' \<Rightarrow> (Inr (), s\<lparr>cube := c', solution := solution s @ [move]\<rparr>))"

definition solver_apply :: "string list \<Rightarrow> (solver, unit) M" where
  "solver_apply moves s =
     (if length (solution s) \<ge> max_moves s
      then raise (Exception ''Maximum moves reached. Cube might be unsolvable.'') s
      else forM moves apply_step s)"

subsection \<open>Piece locator\<close>

type_synonym edge = "string \<times> nat \<times> nat \<times> string \<times> nat \<times> nat"
type_synonym corner = "string \<times> nat \<times> nat \<times> string \<times> nat \<times> nat \<times> string \<times> nat \<times> nat"

definition edges :: "edge list" where
  "edges =
     [(''U'', 0, 1, ''B'', 0, 1), (''U'', 1, 0, ''L'', 0, 1),
      (''U'', 1, 2, ''R'', 0, 1), (''U'', 2, 1, ''F'', 0, 1),
      (''F'', 1, 0, ''L'', 1, 2), (''F'', 1, 2, ''R'', 1, 0),
      (''F'', 2, 1, ''D'', 0, 1), (''B'', 1, 0, ''R'', 1, 2),
      (''B'', 1, 2, ''L'', 1, 0), (''B'', 2, 1, ''D'', 2, 1),
      (''D'', 1, 0, ''L'', 2, 1), (''D'', 1, 2, ''R'', 2, 1)]"

definition corners :: "corner list" where
  "corners =
     [(''U'', 0, 0, ''L'', 0, 0, ''B'', 0, 2), (''U'', 0, 2, ''B'', 0, 0, ''R'', 0, 2),
      (''U'', 2, 0, ''F'', 0, 0, ''L'', 0, 2), (''U'', 2, 2, ''R'', 0, 0, ''F'', 0, 2),
      (''D'', 0, 0, ''L'', 2, 2, ''F'', 2, 0), (''D'', 0, 2, ''F'', 2, 2, ''R'', 2, 0),
      (''D'', 2, 0, ''B'', 2, 2, ''L'', 2, 0), (''D'', 2, 2, ''R'', 2, 2, ''B'', 2, 0)]"

fun find_edge_in :: "edge list \<Rightarrow> string \<Rightarrow> string \<Rightarrow> (solver, edge option) M" where
  "find_edge_in [] color1 color2 s = ret None s"
| "find_edge_in ((f1, r1, c1, f2, r2, c2) # es) color1 color2 s =
     (bindM (cube_st f1 r1 c1) (\<lambda>a.
      bindM (cube_st f2 r2 c2) (\<lambda>b.
        if set [a, b] = set [color1, color2] then ret (Some (f1, r1, c1, f2, r2, c2))
        else find_edge_in es color1 color2))) s"

definition find_edge :: "string \<Rightarrow> string \<Rightarrow> (solver, edge option) M" where
  "find_edge color1 color2 s = find_edge_in edges color1 color2 s"

fun find_corner_in ::
  "corner list \<Rightarrow> string \<Rightarrow> string \<Rightarrow> string \<Rightarrow> (solver, corner option) M" where
  "find_corner_in [] color1 color2 color3 s = ret None s"
| "find_corner_in ((f1, r1, c1, f2, r2, c2, f3, r3, c3) # cs) color1 color2 color3 s =
     (bindM (cube_st f1 r1 c1) (\<lambda>a.
      bindM (cube_st f2 r2 c2) (\<lambda>b.
      bindM (cube_st f3 r3 c3) (\<lambda>c.
        if set [a, b, c] = set [color1, color2, color3]
        then ret (Some (f1, r1, c1, f2, r2, c2, f3, r3, c3))
        else find_corner_in cs color1 color2 color3)))) s"

definition find_corner :: "string \<Rightarrow> string \<Rightarrow> string \<Rightarrow> (solver, corner option) M" where
  "find_corner color1 color2 color3 s = find_corner_in corners color1 color2 color3 s"

subsection \<open>Stage 1: white cross\<close>

text \<open>The test that the edge is already placed and oriented.\<close>

definition wc_in_place :: "string \<Rightarrow> edge \<Rightarrow> bool" where
  "wc_in_place face e =
     (case e of (f1, r1, c1, f2, r2, c2) \<Rightarrow>
        (f1 = ''U'' \<and>
         ((face = ''F'' \<and> r1 = 2 \<and> c1 = 1) \<or> (face = ''R'' \<and> r1 = 1 \<and> c1 = 2) \<or>
          (face = ''B'' \<and> r1 = 0 \<and> c1 = 1) \<or> (face = ''L'' \<and> r1 = 1 \<and> c1 = 0))) \<and>
        f2 = face)"

text \<open>The first \<^verbatim>\<open>for _ in range(4)\<close> loop: the counter is the number of passes left;
  \<open>w\<close> and \<open>side\<close> are \<^verbatim>\<open>self.white_color\<close> and \<^verbatim>\<open>side_color\<close>, the last argument the
  edge last unpacked into \<^verbatim>\<open>f1, r1, c1, f2, r2, c2\<close>.\<close>

fun wc_loop_U :: "nat \<Rightarrow> string \<Rightarrow> string \<Rightarrow> edge \<Rightarrow> (solver, unit) M" where
  "wc_loop_U 0 w side e s = ret () s"
| "wc_loop_U (Suc n) w side (f1, r1, c1, f2, r2, c2) s =
     (if f1 = ''U'' \<and> r1 = 2 \<and> c1 = 1 \<and> f2 = ''F'' then ret ()
      else
        bindM (solver_apply [''U'']) (\<lambda>_.
        bindM (find_edge w side) (\<lambda>edge.
          case edge of None \<Rightarrow> ret () | Some e' \<Rightarrow> wc_loop_U n w side e'))) s"

text \<open>The second loop; it returns the edge last unpacked, which the code after the
  loop reads.\<close>

fun wc_loop_D :: "nat \<Rightarrow> string \<Rightarrow> string \<Rightarrow> string \<Rightarrow> edge \<Rightarrow> (solver, edge) M" where
  "wc_loop_D 0 face w side e s = ret e s"
| "wc_loop_D (Suc n) face w side (f1, r1, c1, f2, r2, c2) s =
     (if f2 = face then ret (f1, r1, c1, f2, r2, c2)
      else
        bindM (solver_apply [''D'']) (\<lambda>_.
        bindM (find_edge w side) (\<lambda>edge.
          case edge of None \<Rightarrow> ret (f1, r1, c1, f2, r2, c2)
          | Some e' \<Rightarrow> wc_loop_D n face w side e'))) s"

text \<open>\<^verbatim>\<open>if f1 == 'D' or f2 == 'D': ...\<close>, the last block of the loop body.\<close>

definition wc_bottom :: "string \<Rightarrow> string \<Rightarrow> string \<Rightarrow> edge \<Rightarrow> (solver, unit) M" where
  "wc_bottom face w side e s =
     (case e of (f1, r1, c1, f2, r2, c2) \<Rightarrow>
        if f1 = ''D'' \<or> f2 = ''D'' then
          bindM (wc_loop_D 4 face w side e) (\<lambda>(f1, r1, c1, f2, r2, c2).
            if f1 = ''D'' then solver_apply [face, face]
            else solver_apply [face @ apo, ''U'' @ apo, face @ apo])
        else ret ()) s"

text \<open>The body of \<^verbatim>\<open>for face in ['F', 'R', 'B', 'L']\<close>; \<^verbatim>\<open>continue\<close> is the end of the body.\<close>

definition wc_face :: "string \<Rightarrow> (solver, unit) M" where
  "wc_face face s =
     (bindM (color_of face) (\<lambda>side.
      bindM (gets white_color) (\<lambda>w.
      bindM (find_edge w side) (\<lambda>edge.
        case edge of
          None \<Rightarrow> ret ()
        | Some e \<Rightarrow>
            (case e of (f1, r1, c1, f2, r2, c2) \<Rightarrow>
               if wc_in_place face e then ret ()
               else if f1 \<noteq> ''D'' \<and> f2 \<noteq> ''D'' then
                 bindM
                   (if f1 = ''U'' then
                      bindM (wc_loop_U 4 w side e) (\<lambda>_.
                        if face = ''F'' then solver_apply [''F'']
                        else if face = ''R'' then solver_apply [''R'']
                        else if face = ''B'' then solver_apply [''B'']
                        else solver_apply [''L''])
                    else if f1 = ''F'' \<and> r1 = 1 \<and> c1 = 2
                      then solver_apply [''R'', ''U'', ''R'' @ apo]
                    else if f1 = ''F'' \<and> r1 = 1 \<and> c1 = 0
                      then solver_apply [''L'' @ apo, ''U'' @ apo, ''L'']
                    else if f1 = ''B'' \<and> r1 = 1 \<and> c1 = 2
                      then solver_apply [''R'' @ apo, ''U'' @ apo, ''R'']
                    else if f1 = ''B'' \<and> r1 = 1 \<and> c1 = 0
                      then solver_apply [''L'', ''U'', ''L'' @ apo]
                    else ret ())
                   (\<lambda>_.
                 bindM (find_edge w side) (\<lambda>edge.
                   case edge of None \<Rightarrow> ret () | Some e2 \<Rightarrow> wc_bottom face w side e2))
               else wc_bottom face w side e))))) s"

definition solve_white_cross :: "(solver, unit) M" where
  "solve_white_cross s = forM [''F'', ''R'', ''B'', ''L''] wc_face s"

subsection \<open>Stage 2: white corners\<close>

text \<open>\<^verbatim>\<open>'L' if face == 'F' else 'F' if face == 'R' else 'R' if face == 'B' else 'B'\<close>.\<close>

definition prev_face :: "string \<Rightarrow> string" where
  "prev_face face =
     (if face = ''F'' then ''L'' else if face = ''R'' then ''F''
      else if face = ''B'' then ''R'' else ''B'')"

text \<open>The truth value of the name \<^verbatim>\<open>edge\<close> in \<^verbatim>\<open>_solve_white_corners\<close>. The method never
  assigns \<^verbatim>\<open>edge\<close> and the module has no global of that name: reading it raises
  \<^verbatim>\<open>NameError\<close>.\<close>

definition name_edge :: "(solver, bool) M" where
  "name_edge s = raise (NameError ''edge'') s"

fun wcn_loop_U ::
  "nat \<Rightarrow> string \<Rightarrow> string \<Rightarrow> string \<Rightarrow> corner \<Rightarrow> (solver, unit) M" where
  "wcn_loop_U 0 w side1 side2 cn s = ret () s"
| "wcn_loop_U (Suc n) w side1 side2 (f1, r1, c1, f2, r2, c2, f3, r3, c3) s =
     (if f1 = ''U'' \<and> r1 = 2 \<and> c1 = 2 \<and> f2 = ''R'' \<and> f3 = ''F'' then ret ()
      else
        bindM (solver_apply [''U'']) (\<lambda>_.
        bindM (find_corner w side1 side2) (\<lambda>corner.
          case corner of None \<Rightarrow> ret () | Some cn' \<Rightarrow> wcn_loop_U n w side1 side2 cn'))) s"

text \<open>The loop over \<^verbatim>\<open>D\<close> turns. After \<^verbatim>\<open>corner = self._find_corner(...)\<close> the source
  tests \<^verbatim>\<open>if not edge: break\<close>; then it unpacks \<^verbatim>\<open>corner\<close>.\<close>

fun wcn_loop_D ::
  "nat \<Rightarrow> string \<Rightarrow> string \<Rightarrow> string \<Rightarrow> string \<Rightarrow> corner \<Rightarrow> (solver, corner) M" where
  "wcn_loop_D 0 face w side1 side2 cn s = ret cn s"
| "wcn_loop_D (Suc n) face w side1 side2 (f1, r1, c1, f2, r2, c2, f3, r3, c3) s =
     (if f2 = face \<and> f3 = prev_face face then ret (f1, r1, c1, f2, r2, c2, f3, r3, c3)
      else
        bindM (solver_apply [''D'']) (\<lambda>_.
        bindM (find_corner w side1 side2) (\<lambda>corner.
        bindM name_edge (\<lambda>edge.
          if \<not> edge then ret (f1, r1, c1, f2, r2, c2, f3, r3, c3)
          else (case corner of
                  None \<Rightarrow> raise TypeError
                | Some cn' \<Rightarrow> wcn_loop_D n face w side1 side2 cn'))))) s"

definition wcn_bottom ::
  "string \<Rightarrow> string \<Rightarrow> string \<Rightarrow> string \<Rightarrow> corner \<Rightarrow> (solver, unit) M" where
  "wcn_bottom face w side1 side2 cn s =
     (case cn of (f1, r1, c1, f2, r2, c2, f3, r3, c3) \<Rightarrow>
        if f1 = ''D'' \<or> f2 = ''D'' \<or> f3 = ''D'' then
          bindM (wcn_loop_D 4 face w side1 side2 cn)
            (\<lambda>(f1, r1, c1, f2, r2, c2, f3, r3, c3).
            if f1 = ''D'' then
              (if face = ''F'' then solver_apply [''F'', ''D'' @ apo, ''F'' @ apo]
               else if face = ''R'' then solver_apply [''R'' @ apo, ''D'', ''R'']
               else if face = ''B'' then solver_apply [''B'', ''D2'', ''B'' @ apo, ''D2'']
               else solver_apply [''L'', ''D'' @ apo, ''L'' @ apo])
            else
              (if face = ''F'' then solver_apply [''F'' @ apo, ''D'' @ apo, ''F'']
               else if face = ''R'' then solver_apply [''R'', ''D'', ''R'' @ apo]
               else if face = ''B'' then solver_apply [''B'' @ apo, ''D2'', ''B'']
               else solver_apply [''L'', ''D'' @ apo, ''L'' @ apo]))
        else ret ()) s"

definition wcn_face :: "string \<Rightarrow> (solver, unit) M" where
  "wcn_face face s =
     (bindM (color_of face) (\<lambda>side1.
      bindM (color_of (prev_face face)) (\<lambda>side2.
      bindM (gets white_color) (\<lambda>w.
      bindM (find_corner w side1 side2) (\<lambda>corner.
        case corner of
          None \<Rightarrow> ret ()
        | Some cn \<Rightarrow>
            (case cn of (f1, r1, c1, f2, r2, c2, f3, r3, c3) \<Rightarrow>
               if f1 \<noteq> ''D'' \<and> f2 \<noteq> ''D'' \<and> f3 \<noteq> ''D'' then
                 bindM (wcn_loop_U 4 w side1 side2 cn) (\<lambda>_.
                 bindM (solver_apply [''R'', ''D'', ''R'' @ apo, ''D'' @ apo]) (\<lambda>_.
                 bindM (find_corner w side1 side2) (\<lambda>corner.
                   case corner of
                     None \<Rightarrow> ret ()
                   | Some cn2 \<Rightarrow> wcn_bottom face w side1 side2 cn2)))
               else wcn_bottom face w side1 side2 cn)))))) s"

definition solve_white_corners :: "(solver, unit) M" where
  "solve_white_corners s = forM [''F'', ''R'', ''B'', ''L''] wcn_face s"

subsection \<open>Stage 3: second layer\<close>

text \<open>\<^verbatim>\<open>'R' if f == 'F' else 'B' if f == 'R' else 'L' if f == 'B' else 'F'\<close>, the test that
  neither face name of an edge contains \<^verbatim>\<open>U\<close> or \<^verbatim>\<open>D\<close>, and the two insertion
  algorithms.\<close>

definition next_face :: "string \<Rightarrow> string" where
  "next_face f =
     (if f = ''F'' then ''R'' else if f = ''R'' then ''B''
      else if f = ''B'' then ''L'' else ''F'')"

definition in_middle :: "edge \<Rightarrow> bool" where
  "in_middle e =
     (case e of (f1, r1, c1, f2, r2, c2) \<Rightarrow>
        CHR ''U'' \<notin> set f1 \<and> CHR ''D'' \<notin> set f1 \<and> CHR ''U'' \<notin> set f2 \<and> CHR ''D'' \<notin> set f2)"

definition alg_right :: "string list" where
  "alg_right = [''U'', ''R'', ''U'' @ apo, ''R'' @ apo, ''U'' @ apo, ''F'' @ apo, ''U'', ''F'']"

definition alg_left :: "string list" where
  "alg_left = [''U'' @ apo, ''L'' @ apo, ''U'', ''L'', ''U'', ''F'', ''U'' @ apo, ''F'' @ apo]"

text \<open>\<^verbatim>\<open>self._find_edge(self.face_colors[f], self.face_colors[adj_face])\<close>.\<close>

definition find_edge_of :: "string \<Rightarrow> string \<Rightarrow> (solver, edge option) M" where
  "find_edge_of f adj_face s =
     (bindM (color_of f) (\<lambda>cf.
      bindM (color_of adj_face) (\<lambda>ca.
      find_edge cf ca))) s"

text \<open>The inner \<^verbatim>\<open>for f in ['F', 'R', 'B', 'L']\<close>: it returns \<^verbatim>\<open>edge\<close> together with the
  values \<^verbatim>\<open>f\<close> and \<^verbatim>\<open>adj_face\<close> keep after the loop (those of the pass that broke out, or
  of the last pass).\<close>

fun sl_pick :: "string list \<Rightarrow> (solver, edge option \<times> string \<times> string) M" where
  "sl_pick [] s = ret (None, [], []) s"
| "sl_pick (f # fs) s =
     (bindM (find_edge_of f (next_face f)) (\<lambda>e.
        case e of
          Some ed \<Rightarrow>
            if in_middle ed
            then (if fs = [] then ret (None, f, next_face f) else sl_pick fs)
            else ret (Some ed, f, next_face f)
        | None \<Rightarrow> (if fs = [] then ret (None, f, next_face f) else sl_pick fs))) s"

text \<open>The loop over \<^verbatim>\<open>U\<close> turns; \<open>face\<close> is fixed before the loop. It returns the edge
  last unpacked.\<close>

fun sl_loop_U :: "nat \<Rightarrow> string \<Rightarrow> string \<Rightarrow> string \<Rightarrow> edge \<Rightarrow> (solver, edge) M" where
  "sl_loop_U 0 face f adj_face e s = ret e s"
| "sl_loop_U (Suc n) face f adj_face e s =
     (bindM (cube_st face 0 (if face \<in> set [''L'', ''R''] then 1 else 1)) (\<lambda>st.
      bindM (color_of face) (\<lambda>cf.
        if st = cf then ret e
        else
          bindM (solver_apply [''U'']) (\<lambda>_.
          bindM (find_edge_of f adj_face) (\<lambda>edge.
            case edge of None \<Rightarrow> ret e | Some e' \<Rightarrow> sl_loop_U n face f adj_face e'))))) s"

fun sl_loop_D :: "nat \<Rightarrow> string \<Rightarrow> string \<Rightarrow> edge \<Rightarrow> (solver, unit) M" where
  "sl_loop_D 0 f adj_face e s = ret () s"
| "sl_loop_D (Suc n) f adj_face (f1, r1, c1, f2, r2, c2) s =
     (if f1 = ''F'' \<and> r1 = 2 \<and> c1 = 1 then ret ()
      else
        bindM (solver_apply [''D'']) (\<lambda>_.
        bindM (find_edge_of f adj_face) (\<lambda>edge.
          case edge of None \<Rightarrow> ret () | Some e' \<Rightarrow> sl_loop_D n f adj_face e'))) s"

text \<open>\<^verbatim>\<open>[k for k, v in self.face_colors.items() if v == other_color][0]\<close>.\<close>

definition target_face :: "string \<Rightarrow> (solver, string) M" where
  "target_face other_color s =
     (case filter (\<lambda>(k, v). v = other_color) (face_colors s) of
        [] \<Rightarrow> raise IndexError s
      | (k, v) # _ \<Rightarrow> ret k s)"

text \<open>The part of the body after \<^verbatim>\<open>f1, r1, c1, f2, r2, c2 = edge\<close> has been reached
  with an edge outside the middle layer or re-read.\<close>

definition sl_insert :: "string \<Rightarrow> string \<Rightarrow> edge \<Rightarrow> (solver, unit) M" where
  "sl_insert f adj_face e s =
     (case e of (f1, r1, c1, f2, r2, c2) \<Rightarrow>
        if CHR ''U'' \<in> set f1 \<or> CHR ''U'' \<in> set f2 \<or> CHR ''D'' \<in> set f1 \<or> CHR ''D'' \<in> set f2
        then
          if CHR ''U'' \<in> set f1 \<or> CHR ''U'' \<in> set f2 then
            bindM (sl_loop_U 4 (if f1 = ''U'' then f2 else f1) f adj_face e)
              (\<lambda>(f1, r1, c1, f2, r2, c2).
            bindM (if f1 \<noteq> ''U'' then cube_st f1 r1 c1 else cube_st f2 r2 c2) (\<lambda>other_color.
            bindM (target_face other_color) (\<lambda>target.
              if target = ''R'' then solver_apply alg_right else solver_apply alg_left)))
          else
            bindM (sl_loop_D 4 f adj_face e) (\<lambda>_.
            solver_apply [''F'', ''U'', ''F'' @ apo])
        else ret ()) s"

text \<open>The body of the outer \<^verbatim>\<open>for _ in range(4)\<close>.\<close>

definition sl_round :: "(solver, unit) M" where
  "sl_round s =
     (bindM (sl_pick [''F'', ''R'', ''B'', ''L'']) (\<lambda>(edge, f, adj_face).
        case edge of
          None \<Rightarrow> ret ()
        | Some e \<Rightarrow>
            (case e of (f1, r1, c1, f2, r2, c2) \<Rightarrow>
               if in_middle e then
                 bindM
                   (if f1 = ''F'' \<and> r1 = 1 \<and> c1 = 2 then solver_apply alg_right
                    else if f1 = ''F'' \<and> r1 = 1 \<and> c1 = 0 then solver_apply alg_left
                    else ret ())
                   (\<lambda>_.
                 bindM (find_edge_of f adj_face) (\<lambda>edge.
                   case edge of None \<Rightarrow> ret () | Some e2 \<Rightarrow> sl_insert f adj_face e2))
               else sl_insert f adj_face e))) s"

definition solve_second_layer :: "(solver, unit) M" where
  "solve_second_layer s = repeatM 4 sl_round s"

subsection \<open>Stage 4: yellow cross\<close>

definition yellow_edges :: "(solver, bool list) M" where
  "yellow_edges s =
     (bindM (gets yellow_color) (\<lambda>y.
      bindM (cube_st ''D'' 0 1) (\<lambda>a.
      bindM (cube_st ''D'' 1 0) (\<lambda>b.
      bindM (cube_st ''D'' 1 2) (\<lambda>c.
      bindM (cube_st ''D'' 2 1) (\<lambda>d.
      ret [a = y, b = y, c = y, d = y])))))) s"

text \<open>\<^verbatim>\<open>sum(edges)\<close> on a list of booleans.\<close>

definition count_true :: "bool list \<Rightarrow> nat" where
  "count_true bs = length (filter (\<lambda>b. b) bs)"

fun yc_loop :: "nat \<Rightarrow> bool list \<Rightarrow> (solver, unit) M" where
  "yc_loop 0 es s = ret () s"
| "yc_loop (Suc n) es s =
     (if es ! 1 \<and> es ! 2 then ret ()
      else
        bindM (solver_apply [''D'']) (\<lambda>_.
        bindM yellow_edges (\<lambda>es'. yc_loop n es'))) s"

definition solve_yellow_cross :: "(solver, unit) M" where
  "solve_yellow_cross s =
     (bindM yellow_edges (\<lambda>es.
        if count_true es = 4 then ret ()
        else
          bindM
            (if count_true es = 0 then
               bindM (solver_apply
                 [''F'', ''R'', ''U'', ''R'' @ apo, ''U'' @ apo, ''F'' @ apo]) (\<lambda>_.
               yellow_edges)
             else ret es)
            (\<lambda>es.
          if count_true es = 2 then
            bindM
              (if es ! 0 \<and> es ! 2 then solver_apply [''D'']
               else if \<not> (es ! 1 \<and> es ! 3) then yc_loop 4 es
               else ret ())
              (\<lambda>_.
            solver_apply [''F'', ''U'', ''R'', ''U'' @ apo, ''R'' @ apo, ''F'' @ apo])
          else ret ()))) s"

subsection \<open>Stage 5: yellow face\<close>

definition yellow_corners :: "(solver, bool list) M" where
  "yellow_corners s =
     (bindM (gets yellow_color) (\<lambda>y.
      bindM (cube_st ''D'' 0 0) (\<lambda>a.
      bindM (cube_st ''D'' 0 2) (\<lambda>b.
      bindM (cube_st ''D'' 2 0) (\<lambda>c.
      bindM (cube_st ''D'' 2 2) (\<lambda>d.
      ret [a = y, b = y, c = y, d = y])))))) s"

fun yf_loop_D :: "nat \<Rightarrow> (solver, unit) M" where
  "yf_loop_D 0 s = ret () s"
| "yf_loop_D (Suc n) s =
     (bindM (cube_st ''D'' 2 2) (\<lambda>st.
      bindM (gets yellow_color) (\<lambda>y.
        if st = y then ret ()
        else bindM (solver_apply [''D'']) (\<lambda>_. yf_loop_D n)))) s"

fun yf_loop :: "nat \<Rightarrow> (solver, unit) M" where
  "yf_loop 0 s = ret () s"
| "yf_loop (Suc n) s =
     (bindM yellow_corners (\<lambda>cs.
        if list_all (\<lambda>b. b) cs then ret ()
        else
          bindM (yf_loop_D 4) (\<lambda>_.
          bindM (solver_apply
            [''R'', ''U'', ''R'' @ apo, ''U'', ''R'', ''U2'', ''R'' @ apo]) (\<lambda>_.
          yf_loop n)))) s"

definition solve_yellow_face :: "(solver, unit) M" where
  "solve_yellow_face s = yf_loop 4 s"

subsection \<open>Stage 6: final layer\<close>

definition alg_corners :: "string list" where
  "alg_corners =
     [''R'' @ apo, ''F'', ''R'' @ apo, ''B2'', ''R'', ''F'' @ apo, ''R'' @ apo, ''B2'', ''R2'']"

definition alg_edges :: "string list" where
  "alg_edges =
     [''R2'', ''U'', ''R'', ''U'', ''R'' @ apo, ''U'' @ apo, ''R'' @ apo, ''U'' @ apo,
      ''R'' @ apo, ''U'', ''R'' @ apo]"

text \<open>The inner \<^verbatim>\<open>for i in range(4)\<close> of \<^verbatim>\<open>_position_final_corners\<close>; the result is the
  value of \<^verbatim>\<open>solved\<close> after it.\<close>

fun fc_check :: "nat list \<Rightarrow> (solver, bool) M" where
  "fc_check [] s = ret True s"
| "fc_check (i # is) s =
     (let face = [''F'', ''R'', ''B'', ''L''] ! i; next_face = [''R'', ''B'', ''L'', ''F''] ! i in
      bindM (cube_st ''U'' (if face \<in> set [''F'', ''R''] then 2 else 0)
                          (if face \<in> set [''R'', ''B''] then 2 else 0)) (\<lambda>a.
      bindM (cube_st face 0 (if face \<in> set [''F'', ''B''] then 2 else 0)) (\<lambda>b.
      bindM (cube_st next_face 0 (if next_face \<in> set [''F'', ''B''] then 0 else 2)) (\<lambda>c.
      bindM (color_of ''U'') (\<lambda>eu.
      bindM (color_of face) (\<lambda>ef.
      bindM (color_of next_face) (\<lambda>en.
        if set [a, b, c] \<noteq> set [eu, ef, en] then ret False else fc_check is))))))) s"

fun fc_loop :: "nat \<Rightarrow> (solver, unit) M" where
  "fc_loop 0 s = ret () s"
| "fc_loop (Suc n) s =
     (bindM (fc_check [0, 1, 2, 3]) (\<lambda>solved.
        if solved then ret ()
        else
          bindM (solver_apply alg_corners) (\<lambda>_.
          bindM (solver_apply [''U'']) (\<lambda>_.
          fc_loop n)))) s"

definition position_final_corners :: "(solver, unit) M" where
  "position_final_corners s = fc_loop 4 s"

fun fe_check :: "string list \<Rightarrow> (solver, bool) M" where
  "fe_check [] s = ret True s"
| "fe_check (face # fs) s =
     (bindM (cube_st face 0 1) (\<lambda>st.
      bindM (color_of face) (\<lambda>cf.
        if st \<noteq> cf then ret False else fe_check fs))) s"

fun fe_loop :: "nat \<Rightarrow> (solver, unit) M" where
  "fe_loop 0 s = ret () s"
| "fe_loop (Suc n) s =
     (bindM (fe_check [''F'', ''R'', ''B'', ''L'']) (\<lambda>solved.
        if solved then ret ()
        else
          bindM (solver_apply alg_edges) (\<lambda>_.
          bindM (solver_apply [''U'']) (\<lambda>_.
          fe_loop n)))) s"

definition position_final_edges :: "(solver, unit) M" where
  "position_final_edges s = fe_loop 4 s"

definition solve_final_layer :: "(solver, unit) M" where
  "solve_final_layer s = bindM position_final_corners (\<lambda>_. position_final_edges) s"

subsection \<open>Driver\<close>

definition sentinel :: string where
  "sentinel = ''Solver failed. Please reset and try again.''"

text \<open>\<^verbatim>\<open>is_cube_solved(self.cube)\<close>, \<^verbatim>\<open>validate_cube(self.cube)\<close> and
  \<^verbatim>\<open>self._optimize_solution()\<close>.\<close>

definition solved_self :: "(solver, bool) M" where
  "solved_self s = lift (is_cube_solved (cube s)) s"

definition validate_self :: "(solver, bool) M" where
  "validate_self s = lift (validate_cube (cube s)) s"

definition optimize_self :: "(solver, string list) M" where
  "optimize_self s = lift (optimize_solution (solution s)) s"

text \<open>The \<^verbatim>\<open>try\<close> block of \<^verbatim>\<open>solve\<close>.\<close>

definition solve_stages :: "(solver, string list) M" where
  "solve_stages s =
     (bindM validate_self (\<lambda>_.
      bindM solve_white_cross (\<lambda>_.
      bindM solve_white_corners (\<lambda>_.
      bindM solve_second_layer (\<lambda>_.
      bindM solve_yellow_cross (\<lambda>_.
      bindM solve_yellow_face (\<lambda>_.
      bindM solve_final_layer (\<lambda>_.
      optimize_self)))))))) s"

text \<open>\<^verbatim>\<open>CubeSolver.solve\<close>: the solved test stands before the \<^verbatim>\<open>try\<close>; every exception
  raised inside the \<^verbatim>\<open>try\<close> becomes the one-entry list holding the failure text.\<close>

definition solve :: "(solver, string list) M" where
  "solve s =
     (bindM solved_self (\<lambda>solved.
        if solved then ret []
        else catchM solve_stages (\<lambda>e. ret [sentinel]))) s"

text \<open>\<^verbatim>\<open>CubeSolver(state).solve()\<close>, the operation the specification calls
  \<^verbatim>\<open>solve(state)\<close>.\<close>

definition solve_cube :: "cube \<Rightarrow> error + string list" where
  "solve_cube c = bindE (CubeSolver c) (\<lambda>slf. fst (solve slf))"

definition scrambled_cube :: cube where
  "scrambled_cube =
     (case replay solved_cube [''R'', ''U'', ''R'' @ apo, ''U'' @ apo] of
        Inl e \<Rightarrow> [] | Inr c \<Rightarrow> c)"

section \<open>Object store\<close>

text \<open>
  Where object identity matters (who can see a mutation), Python objects live in a
  store. A cube is a reference to a dict object, whose values are references to face
  list objects, whose elements are references to row list objects; tokens are immutable
  strings and are held by value. Each kind of object has its own table, newest binding
  first; \<open>fresh\<close> is the next unused address.
\<close>

type_synonym addr = nat

record store =
  dict_objs :: "(addr \<times> (string \<times> addr) list) list"
  face_objs :: "(addr \<times> addr list) list"
  row_objs :: "(addr \<times> string list) list"
  fresh :: addr

text \<open>Allocation, dereference and in-place update of the three kinds of object. A
  reference to no object is no state of a Python program; the model answers it with
  \<open>DanglingRef\<close>.\<close>

definition new_row :: "string list \<Rightarrow> (store, addr) M" where
  "new_row row h =
     (Inr (fresh h), h\<lparr>row_objs := (fresh h, row) # row_objs h, fresh := Suc (fresh h)\<rparr>)"

definition new_face :: "addr list \<Rightarrow> (store, addr) M" where
  "new_face rs h =
     (Inr (fresh h), h\<lparr>face_objs := (fresh h, rs) # face_objs h, fresh := Suc (fresh h)\<rparr>)"

definition new_dict :: "(string \<times> addr) list \<Rightarrow> (store, addr) M" where
  "new_dict kv h =
     (Inr (fresh h), h\<lparr>dict_objs := (fresh h, kv) # dict_objs h, fresh := Suc (fresh h)\<rparr>)"
























section \<open>Move engine on the store\<close>












text \<open>A cube value entering the store, as the request's JSON does: new row, face and
  dict objects, nothing shared.\<close>

definition store_face :: "face \<Rightarrow> (store, addr) M" where
  "store_face fc h = (bindM (mapM new_row fc) new_face) h"

definition store_cube :: "cube \<Rightarrow> (store, addr) M" where
  "store_cube c h =
     (bindM (mapM (\<lambda>(k, fc). bindM (store_face fc) (\<lambda>fa. ret (k, fa))) c) new_dict) h"


section \<open>Cube values and cube objects\<close>

text \<open>
  The value a cube reference denotes, read through the store without changing it: the
  rows of a face object, the tokens of a row object, the face and the cube they make up
  (\<open>kv\<close> is the content of the dict object).
\<close>

definition face_rows :: "store \<Rightarrow> addr \<Rightarrow> addr list" where
  "face_rows h fa = (case map_of (face_objs h) fa of None \<Rightarrow> [] | Some rs \<Rightarrow> rs)"

definition vrow :: "store \<Rightarrow> addr \<Rightarrow> string list" where
  "vrow h ra = (case map_of (row_objs h) ra of None \<Rightarrow> [] | Some row \<Rightarrow> row)"

definition vface :: "store \<Rightarrow> addr \<Rightarrow> face" where
  "vface h fa = map (vrow h) (face_rows h fa)"

definition vcube :: "store \<Rightarrow> (string \<times> addr) list \<Rightarrow> cube" where
  "vcube h kv = map (\<lambda>(k, fa). (k, vface h fa)) kv"

text \<open>
  A face reference is alive when it and its rows are allocated objects. The face
  references \<open>fas\<close> are separate when they are six different objects and no row object
  occurs twice, in one face or in two. A cube reference \<open>d\<close> holds the value \<open>c\<close>
  unshared when its dict object has distinct keys, denotes \<open>c\<close>, and its faces are alive
  and separate. This is the shape of every cube that \<^verbatim>\<open>request.get_json()\<close>, a literal or
  \<^verbatim>\<open>apply_move\<close> itself builds; a cube built as \<^verbatim>\<open>{f: [[c]*3]*3}\<close> is not of this shape,
  its three rows being one object.
\<close>

definition alive_face :: "store \<Rightarrow> addr \<Rightarrow> bool" where
  "alive_face h fa =
     (map_of (face_objs h) fa \<noteq> None \<and> fa < fresh h \<and>
      list_all (\<lambda>ra. map_of (row_objs h) ra \<noteq> None \<and> ra < fresh h) (face_rows h fa))"

definition sep :: "store \<Rightarrow> addr list \<Rightarrow> bool" where
  "sep h fas =
     (distinct fas \<and>
      list_all (\<lambda>fa. distinct (face_rows h fa) \<and>
        list_all (\<lambda>fa'. fa = fa' \<or> list_all (\<lambda>ra. ra \<notin> set (face_rows h fa')) (face_rows h fa)) fas) fas)"

definition laid :: "store \<Rightarrow> (string \<times> addr) list \<Rightarrow> cube \<Rightarrow> bool" where
  "laid h kv c =
     (is_dict c \<and> vcube h kv = c \<and> list_all (alive_face h) (map snd kv) \<and> sep h (map snd kv))"

definition unshared :: "store \<Rightarrow> addr \<Rightarrow> cube \<Rightarrow> bool" where
  "unshared h d c = (case map_of (dict_objs h) d of None \<Rightarrow> False | Some kv \<Rightarrow> laid h kv c)"



text \<open>The store \<open>h'\<close> extends \<open>h\<close>: every object of \<open>h\<close> is in \<open>h'\<close>, unchanged.\<close>

definition ext :: "store \<Rightarrow> store \<Rightarrow> bool" where
  "ext h h' =
     (fresh h \<le> fresh h' \<and>
      (\<forall>a<fresh h. map_of (dict_objs h') a = map_of (dict_objs h) a \<and>
                    map_of (face_objs h') a = map_of (face_objs h) a \<and>
                    map_of (row_objs h') a = map_of (row_objs h) a))"







lemma bindE_case: "bindE m f = (case m of Inl e \<Rightarrow> Inl e | Inr x \<Rightarrow> f x)"
  by (cases m) simp_all

lemma validate_rows_eq:
  "validate_rows face rows colors =
     (if \<forall>row\<in>set rows. length row = 3 then Inr (colors \<union> (\<Union>row\<in>set rows. set row))
      else Inl (ValueError (''Face '' @ face @ '' rows must contain 3 stickers'')))"
  by (induction rows arbitrary: colors) auto

lemma validate_faces_ok:
  assumes "set ks \<subseteq> fst ` set cb"
  shows "(\<forall>k\<in>set ks. grid3 (the (map_of cb k))) \<Longrightarrow>
         validate_faces cb ks colors =
           Inr (colors \<union> (\<Union>k\<in>set ks. \<Union>row\<in>set (the (map_of cb k)). set row))"
  using assms
proof (induction ks arbitrary: colors)
  case Nil
  then show ?case by simp
next
  case (Cons k ks)
  from Cons.prems obtain fc where fc: "map_of cb k = Some fc"
    by (metis (no_types, lifting) domD dom_map_of_conv_image_fst list.set_intros(1) subsetD)
  with Cons show ?case
    by (simp add: bindE_case dict_get_def grid3_def validate_rows_eq Un_assoc)
qed

lemma validate_faces_bad:
  assumes "set ks \<subseteq> fst ` set cb"
  shows "\<not> (\<forall>k\<in>set ks. grid3 (the (map_of cb k))) \<Longrightarrow>
         \<exists>msg. validate_faces cb ks colors = Inl (ValueError msg)"
  using assms
proof (induction ks arbitrary: colors)
  case Nil
  then show ?case by simp
next
  case (Cons k ks)
  from Cons.prems obtain fc where fc: "map_of cb k = Some fc"
    by (metis (no_types, lifting) domD dom_map_of_conv_image_fst list.set_intros(1) subsetD)
  with Cons show ?case
    by (auto simp add: bindE_case dict_get_def grid3_def validate_rows_eq)
qed

lemma validate_faces_keys:
  "\<forall>k\<in>set (map fst cb). grid3 (the (map_of cb k)) \<Longrightarrow>
     validate_faces cb (map fst cb) {} = Inr (set (stickers cb))"
  using validate_faces_ok[of "map fst cb" cb "{}"] by (simp add: stickers_def)

lemma validate_faces_keys_bad:
  "\<not> (\<forall>k\<in>set (map fst cb). grid3 (the (map_of cb k))) \<Longrightarrow>
     \<exists>msg. validate_faces cb (map fst cb) {} = Inl (ValueError msg)"
  using validate_faces_bad[of "map fst cb" cb "{}"] by simp

lemma validate_cube_iff: "validate_cube cb = Inr True \<longleftrightarrow> well_formed cb"
  using validate_faces_keys[of cb] validate_faces_keys_bad[of cb]
  by (cases "\<forall>k\<in>set (map fst cb). grid3 (the (map_of cb k))")
     (auto simp: validate_cube_def well_formed_def bindE_case)

lemma validate_cube_fail:
  "(\<exists>msg. validate_cube cb = Inl (ValueError msg)) \<longleftrightarrow> \<not> well_formed cb"
  using validate_faces_keys[of cb] validate_faces_keys_bad[of cb]
  by (cases "\<forall>k\<in>set (map fst cb). grid3 (the (map_of cb k))")
     (auto simp: validate_cube_def well_formed_def bindE_case)

lemma keys_update: "map_of c k \<noteq> None \<Longrightarrow> map fst (AList.update k v c) = map fst c"
  by (simp add: update_keys map_of_eq_None_iff)

lemma rotate_face_3x3:
  "rotate_face [[a0,a1,a2],[a3,a4,a5],[a6,a7,a8]] = [[a6,a3,a0],[a7,a4,a1],[a8,a5,a2]]"
  by (simp add: rotate_face_def zip_star_def upt_rec)

lemmas cube_ops = bindE_case dict_get_def dict_set_def get_row_def set_row_def get_st_def set_st_def
  copy_row_def copy_st_def list_get_def list_set_def update_conv' keys_update rotate_face_3x3
  has_faces_def turned_def quarter_turn_def

lemma qt_U:
  assumes "has_faces c [[u0,u1,u2],[u3,u4,u5],[u6,u7,u8]] d [f0,f1,f2] [b0,b1,b2] [l0,l1,l2] [r0,r1,r2]"
  shows "\<exists>c'. turned c ''U'' c' \<and>
     has_faces c' [[u6,u3,u0],[u7,u4,u1],[u8,u5,u2]] d [r0,f1,f2] [l0,b1,b2] [f0,l1,l2] [b0,r1,r2]"
  using assms by (simp add: cycle_U_def cube_ops)

lemma qt_D:
  assumes "has_faces c u [[d0,d1,d2],[d3,d4,d5],[d6,d7,d8]] [f0,f1,f2] [b0,b1,b2] [l0,l1,l2] [r0,r1,r2]"
  shows "\<exists>c'. turned c ''D'' c' \<and>
     has_faces c' u [[d6,d3,d0],[d7,d4,d1],[d8,d5,d2]] [f0,f1,l2] [b0,b1,r2] [l0,l1,b2] [r0,r1,f2]"
  using assms by (simp add: cycle_D_def cube_ops)

lemma qt_F:
  assumes "has_faces c [[u0,u1,u2],[u3,u4,u5],[u6,u7,u8]] [[d0,d1,d2],[d3,d4,d5],[d6,d7,d8]]
     [[f0,f1,f2],[f3,f4,f5],[f6,f7,f8]] b
     [[l0,l1,l2],[l3,l4,l5],[l6,l7,l8]] [[r0,r1,r2],[r3,r4,r5],[r6,r7,r8]]"
  shows "\<exists>c'. turned c ''F'' c' \<and>
     has_faces c' [[u0,u1,u2],[u3,u4,u5],[l8,l5,l2]] [[r6,r3,r0],[d3,d4,d5],[d6,d7,d8]]
     [[f6,f3,f0],[f7,f4,f1],[f8,f5,f2]] b
     [[l0,l1,d0],[l3,l4,d1],[l6,l7,d2]] [[u6,r1,r2],[u7,r4,r5],[u8,r7,r8]]"
  using assms by (simp add: cycle_F_def cube_ops)

lemma qt_B:
  assumes "has_faces c [[u0,u1,u2],[u3,u4,u5],[u6,u7,u8]] [[d0,d1,d2],[d3,d4,d5],[d6,d7,d8]]
     f [[b0,b1,b2],[b3,b4,b5],[b6,b7,b8]]
     [[l0,l1,l2],[l3,l4,l5],[l6,l7,l8]] [[r0,r1,r2],[r3,r4,r5],[r6,r7,r8]]"
  shows "\<exists>c'. turned c ''B'' c' \<and>
     has_faces c' [[r2,r5,r8],[u3,u4,u5],[u6,u7,u8]] [[d0,d1,d2],[d3,d4,d5],[l0,l3,l6]]
     f [[b6,b3,b0],[b7,b4,b1],[b8,b5,b2]]
     [[u2,l1,l2],[u1,l4,l5],[u0,l7,l8]] [[r0,r1,d8],[r3,r4,d7],[r6,r7,d6]]"
  using assms by (simp add: cycle_B_def cube_ops)

lemma qt_L:
  assumes "has_faces c [[u0,u1,u2],[u3,u4,u5],[u6,u7,u8]] [[d0,d1,d2],[d3,d4,d5],[d6,d7,d8]]
     [[f0,f1,f2],[f3,f4,f5],[f6,f7,f8]] [[b0,b1,b2],[b3,b4,b5],[b6,b7,b8]]
     [[l0,l1,l2],[l3,l4,l5],[l6,l7,l8]] r"
  shows "\<exists>c'. turned c ''L'' c' \<and>
     has_faces c' [[b8,u1,u2],[b5,u4,u5],[b2,u7,u8]] [[f0,d1,d2],[f3,d4,d5],[f6,d7,d8]]
     [[u0,f1,f2],[u3,f4,f5],[u6,f7,f8]] [[b0,b1,d6],[b3,b4,d3],[b6,b7,d0]]
     [[l6,l3,l0],[l7,l4,l1],[l8,l5,l2]] r"
  using assms by (simp add: cycle_L_def cube_ops)

lemma qt_R:
  assumes "has_faces c [[u0,u1,u2],[u3,u4,u5],[u6,u7,u8]] [[d0,d1,d2],[d3,d4,d5],[d6,d7,d8]]
     [[f0,f1,f2],[f3,f4,f5],[f6,f7,f8]] [[b0,b1,b2],[b3,b4,b5],[b6,b7,b8]]
     l [[r0,r1,r2],[r3,r4,r5],[r6,r7,r8]]"
  shows "\<exists>c'. turned c ''R'' c' \<and>
     has_faces c' [[u0,u1,f2],[u3,u4,f5],[u6,u7,f8]] [[d0,d1,b6],[d3,d4,b3],[d6,d7,b0]]
     [[f0,f1,d2],[f3,f4,d5],[f6,f7,d8]] [[u8,b1,b2],[u5,b4,b5],[u2,b7,b8]]
     l [[r6,r3,r0],[r7,r4,r1],[r8,r5,r2]]"
  using assms by (simp add: cycle_R_def cube_ops)


lemma list3E: "length xs = 3 \<Longrightarrow> \<exists>a b c. xs = [a, b, c]"
  by (cases xs; simp; cases "tl xs"; simp; cases "tl (tl xs)"; simp) 

lemma grid3E:
  assumes "grid3 fc"
  shows "\<exists>a0 a1 a2 a3 a4 a5 a6 a7 a8. fc = [[a0,a1,a2],[a3,a4,a5],[a6,a7,a8]]"
proof -
  from assms obtain r0 r1 r2 where fc: "fc = [r0, r1, r2]"
    using list3E[of fc] by (auto simp: grid3_def)
  with assms have "length r0 = 3" "length r1 = 3" "length r2 = 3"
    by (simp_all add: grid3_def)
  with fc show ?thesis using list3E[of r0] list3E[of r1] list3E[of r2] by auto
qed

lemma well_formed_face:
  assumes "well_formed c" "k \<in> valid_faces"
  shows "\<exists>fc. map_of c k = Some fc \<and> grid3 fc"
proof -
  from assms have k: "k \<in> set (map fst c)" by (simp add: well_formed_def)
  then obtain fc where "map_of c k = Some fc"
    by (cases "map_of c k") (auto simp: map_of_eq_None_iff)
  moreover from assms(1) have "\<forall>k\<in>set (map fst c). grid3 (the (map_of c k))"
    unfolding well_formed_def by blast
  ultimately show ?thesis using k by fastforce
qed

lemma well_formed_has_faces:
  assumes "well_formed c"
  shows "\<exists>u d f b l r. has_faces c u d f b l r \<and>
     grid3 u \<and> grid3 d \<and> grid3 f \<and> grid3 b \<and> grid3 l \<and> grid3 r"
  using well_formed_face[OF assms, of "''U''"] well_formed_face[OF assms, of "''D''"]
    well_formed_face[OF assms, of "''F''"] well_formed_face[OF assms, of "''B''"]
    well_formed_face[OF assms, of "''L''"] well_formed_face[OF assms, of "''R''"]
  by (auto simp: has_faces_def valid_faces_def)


lemma stickers_mset:
  "mset (stickers c) = (\<Sum>k\<in>#mset (map fst c). mset (concat (the (map_of c k))))"
  by (simp add: stickers_def mset_concat comp_def multiset.map_comp flip: sum_mset_sum_list)

lemma dict_keys_mset:
  assumes "is_dict c" "set (map fst c) = valid_faces"
  shows "mset (map fst c) = mset faces6"
proof -
  have "distinct faces6" "set faces6 = valid_faces" by (auto simp: faces6_def valid_faces_def)
  with assms show ?thesis
    by (metis is_dict_def set_eq_iff_mset_eq_distinct)
qed

lemma stickers_faces:
  assumes "is_dict c" "set (map fst c) = valid_faces" "has_faces c u d f b l r"
  shows "mset (stickers c) = mset (concat u) + mset (concat d) + mset (concat f) +
     mset (concat b) + mset (concat l) + mset (concat r)"
  using assms(3) unfolding stickers_mset dict_keys_mset[OF assms(1,2)]
  by (simp add: faces6_def has_faces_def)









lemma turned_valid:
  assumes "is_dict c" "well_formed c" "has_faces c u d f b l r" "turned c fc c'"
    "has_faces c' u' d' f' b' l' r'"
    "grid3 u' \<and> grid3 d' \<and> grid3 f' \<and> grid3 b' \<and> grid3 l' \<and> grid3 r'"
    "mset (concat u') + mset (concat d') + mset (concat f') + mset (concat b') +
       mset (concat l') + mset (concat r') =
     mset (concat u) + mset (concat d) + mset (concat f) + mset (concat b) +
       mset (concat l) + mset (concat r)"
  shows "is_dict c' \<and> well_formed c' \<and> mset (stickers c') = mset (stickers c)"
proof -
  from assms(4) have keys: "map fst c' = map fst c" by (simp add: turned_def)
  with assms(1) have d: "is_dict c'" by (simp add: is_dict_def)
  from assms(2) have ks: "set (map fst c) = valid_faces" by (simp add: well_formed_def)
  with keys have ks': "set (map fst c') = valid_faces" by simp
  from stickers_faces[OF assms(1) ks assms(3)] stickers_faces[OF d ks' assms(5)] assms(7)
  have m: "mset (stickers c') = mset (stickers c)" by simp
  then have "set (stickers c') = set (stickers c)" by (rule mset_eq_setD)
  with assms(2) have "card (set (stickers c')) \<le> 6" by (simp add: well_formed_def)
  moreover from assms(5,6) have "\<forall>k\<in>valid_faces. grid3 (the (map_of c' k))"
    by (simp add: has_faces_def valid_faces_def)
  ultimately have "well_formed c'" using ks' unfolding well_formed_def by blast
  with d m show ?thesis by simp
qed

lemma quarter_turn_valid:
  assumes "is_dict c" "well_formed c" "fc \<in> valid_faces"
  shows "\<exists>c'. quarter_turn fc c = Inr c' \<and> is_dict c' \<and> well_formed c' \<and>
     mset (stickers c') = mset (stickers c)"
proof -
  from well_formed_has_faces[OF assms(2)] obtain u d f b l r where
    hf: "has_faces c u d f b l r" and
    g: "grid3 u" "grid3 d" "grid3 f" "grid3 b" "grid3 l" "grid3 r" by blast
  from g(1) obtain u0 u1 u2 u3 u4 u5 u6 u7 u8 where
    u: "u = [[u0,u1,u2],[u3,u4,u5],[u6,u7,u8]]" using grid3E by blast
  from g(2) obtain d0 d1 d2 d3 d4 d5 d6 d7 d8 where
    d: "d = [[d0,d1,d2],[d3,d4,d5],[d6,d7,d8]]" using grid3E by blast
  from g(3) obtain f0 f1 f2 f3 f4 f5 f6 f7 f8 where
    f: "f = [[f0,f1,f2],[f3,f4,f5],[f6,f7,f8]]" using grid3E by blast
  from g(4) obtain b0 b1 b2 b3 b4 b5 b6 b7 b8 where
    b: "b = [[b0,b1,b2],[b3,b4,b5],[b6,b7,b8]]" using grid3E by blast
  from g(5) obtain l0 l1 l2 l3 l4 l5 l6 l7 l8 where
    l: "l = [[l0,l1,l2],[l3,l4,l5],[l6,l7,l8]]" using grid3E by blast
  from g(6) obtain r0 r1 r2 r3 r4 r5 r6 r7 r8 where
    r: "r = [[r0,r1,r2],[r3,r4,r5],[r6,r7,r8]]" using grid3E by blast
  note hf' = hf[unfolded u d f b l r]
  have "\<exists>c'. turned c fc c' \<and> is_dict c' \<and> well_formed c' \<and>
     mset (stickers c') = mset (stickers c)"
  proof -
    consider "fc = ''U''" | "fc = ''D''" | "fc = ''F''" | "fc = ''B''" | "fc = ''L''" | "fc = ''R''"
      using assms(3) by (auto simp: valid_faces_def)
    then show ?thesis
    proof cases
      case 1
      from hf' show ?thesis unfolding 1
        apply -
        apply (frule qt_U)
        apply (elim exE conjE)
        apply (rule exI, rule conjI, assumption)
        apply (rule turned_valid[OF assms(1,2)], assumption, assumption, assumption)
         apply (simp add: grid3_def)
        apply simp
        done
    next
      case 2
      from hf' show ?thesis unfolding 2
        apply -
        apply (frule qt_D)
        apply (elim exE conjE)
        apply (rule exI, rule conjI, assumption)
        apply (rule turned_valid[OF assms(1,2)], assumption, assumption, assumption)
         apply (simp add: grid3_def)
        apply simp
        done
    next
      case 3
      from hf' show ?thesis unfolding 3
        apply -
        apply (frule qt_F)
        apply (elim exE conjE)
        apply (rule exI, rule conjI, assumption)
        apply (rule turned_valid[OF assms(1,2)], assumption, assumption, assumption)
         apply (simp add: grid3_def)
        apply simp
        done
    next
      case 4
      from hf' show ?thesis unfolding 4
        apply -
        apply (frule qt_B)
        apply (elim exE conjE)
        apply (rule exI, rule conjI, assumption)
        apply (rule turned_valid[OF assms(1,2)], assumption, assumption, assumption)
         apply (simp add: grid3_def)
        apply simp
        done
    next
      case 5
      from hf' show ?thesis unfolding 5
        apply -
        apply (frule qt_L)
        apply (elim exE conjE)
        apply (rule exI, rule conjI, assumption)
        apply (rule turned_valid[OF assms(1,2)], assumption, assumption, assumption)
         apply (simp add: grid3_def)
        apply simp
        done
    next
      case 6
      from hf' show ?thesis unfolding 6
        apply -
        apply (frule qt_R)
        apply (elim exE conjE)
        apply (rule exI, rule conjI, assumption)
        apply (rule turned_valid[OF assms(1,2)], assumption, assumption, assumption)
         apply (simp add: grid3_def)
        apply simp
        done
    qed
  qed
  then show ?thesis by (auto simp: turned_def)
qed



lemma repeat_quarter_valid:
  assumes "is_dict c" "well_formed c" "fc \<in> valid_faces"
  shows "\<exists>c'. repeatE n (quarter_turn fc) c = Inr c' \<and> is_dict c' \<and> well_formed c' \<and>
     mset (stickers c') = mset (stickers c)"
  using assms(1,2)
proof (induction n arbitrary: c)
  case 0
  then show ?case by simp
next
  case (Suc n)
  from quarter_turn_valid[OF Suc.prems assms(3)] obtain c1 where
    c1: "quarter_turn fc c = Inr c1" "is_dict c1" "well_formed c1"
      "mset (stickers c1) = mset (stickers c)" by blast
  from Suc.IH[OF c1(2,3)] c1(1,4) show ?case by (auto simp: bindE_case)
qed


lemma move_grammar_cases:
  "move_grammar m \<longleftrightarrow> (\<exists>f s. m = f # s \<and> f \<in> set ''UDFBLR'' \<and> (s = [] \<or> s = apo \<or> s = ''2''))"
  by (cases m) (auto simp: move_grammar_def)


lemma apply_move_turns:
  assumes "move_grammar m"
  shows "apply_move c m = repeatE (move_turns (tl m)) (quarter_turn [hd m]) c"
  using assms by (auto simp: move_grammar_cases apply_move_def move_suffix_def Let_def)


lemma apply_move_valid:
  assumes "is_dict c" "well_formed c" "move_grammar m"
  shows "\<exists>c'. apply_move c m = Inr c' \<and> is_dict c' \<and> well_formed c' \<and>
     mset (stickers c') = mset (stickers c)"
proof -
  from assms(3) have "[hd m] \<in> valid_faces"
    by (auto simp: move_grammar_cases valid_faces_def)
  from repeat_quarter_valid[OF assms(1,2) this] show ?thesis
    unfolding apply_move_turns[OF assms(3)] .
qed







lemma opt_turns_grammar: "move_grammar m \<Longrightarrow> opt_turns m = move_turns (tl m)"
  by (auto simp: move_grammar_cases opt_turns_def move_turns_def)

lemma str_head_grammar: "move_grammar m \<Longrightarrow> str_head m = Inr [hd m]"
  by (auto simp: move_grammar_cases str_head_def)

lemma same_face_next_grammar:
  assumes "\<forall>m\<in>set sol. move_grammar m" "i + 1 < length sol"
  shows "same_face_next sol i = Inr (hd (sol ! i) = hd (sol ! (i + 1)))"
proof -
  from assms have "move_grammar (sol ! i)" "move_grammar (sol ! (i + 1))" by simp_all
  with assms(2) show ?thesis
    by (simp add: same_face_next_def str_head_grammar bindE_case)
qed

lemma same_face_next_last: "i + 1 \<ge> length sol \<Longrightarrow> same_face_next sol i = Inr False"
  by (simp add: same_face_next_def)

lemma optimize_loop_merge_pass:
  assumes "\<forall>m\<in>set sol. move_grammar m"
  shows "optimize_loop sol i acc = Inr (acc @ merge_pass (drop i sol))"
  using assms
proof (induction sol i acc rule: optimize_loop.induct)
  case (1 sol i acc)
  note gr = "1.prems"
  show ?case
  proof (cases "i < length sol")
    case False
    then show ?thesis by (simp add: optimize_loop.simps[of sol i acc])
  next
    case lt: True
    then have di: "drop i sol = sol ! i # drop (i + 1) sol" by (simp add: Cons_nth_drop_Suc)
    from lt gr have gi: "move_grammar (sol ! i)" by simp
    show ?thesis
    proof (cases "i + 1 < length sol")
      case False
      then have sf: "same_face_next sol i = Inr False" by (simp add: same_face_next_last)
      from "1.IH"(3)[of False] lt sf gr
      have "optimize_loop sol (i + 1) (acc @ [sol ! i]) =
          Inr ((acc @ [sol ! i]) @ merge_pass (drop (i + 1) sol))" by simp
      with lt sf di False show ?thesis
        by (simp add: optimize_loop.simps[of sol i acc])
    next
      case lt2: True
      then have di2: "drop (i + 1) sol = sol ! (i + 1) # drop (i + 2) sol"
        by (simp add: Cons_nth_drop_Suc)
      from lt2 gr have gi2: "move_grammar (sol ! (i + 1))" by simp
      note sf = same_face_next_grammar[OF gr lt2]
      show ?thesis
      proof (cases "hd (sol ! i) = hd (sol ! (i + 1))")
        case False
        with sf have sf': "same_face_next sol i = Inr False" by simp
        from "1.IH"(3)[of False] lt sf' gr
        have "optimize_loop sol (i + 1) (acc @ [sol ! i]) =
            Inr ((acc @ [sol ! i]) @ merge_pass (drop (i + 1) sol))" by simp
        with lt sf' di di2 False show ?thesis
          by (simp add: optimize_loop.simps[of sol i acc])
      next
        case same: True
        with sf have sf': "same_face_next sol i = Inr True" by simp
        let ?t = "(opt_turns (sol ! i) + opt_turns (sol ! (i + 1))) mod 4"
        have t: "opt_turns (sol ! i) = move_turns (tl (sol ! i))"
          "opt_turns (sol ! Suc i) = move_turns (tl (sol ! Suc i))"
          using gi gi2 by (simp_all add: opt_turns_grammar)
        show ?thesis
        proof (cases "?t = 0")
          case True
          from "1.IH"(1)[OF lt sf' refl refl refl refl refl refl True gr]
          have "optimize_loop sol (i + 2) acc = Inr (acc @ merge_pass (drop (i + 2) sol))" .
          with lt sf' di di2 same True show ?thesis
            by (simp add: optimize_loop.simps[of sol i acc] turn_move_def t)
        next
          case False
          let ?mv = "if ?t = 1 then [hd (sol ! i)]
             else if ?t = 2 then [hd (sol ! i)] @ ''2'' else [hd (sol ! i)] @ apo"
          from "1.IH"(2)[OF lt sf' refl refl refl refl refl refl False str_head_grammar[OF gi] gr]
          have "optimize_loop sol (i + 2) (acc @ [?mv]) =
              Inr ((acc @ [?mv]) @ merge_pass (drop (i + 2) sol))" .
          with lt sf' di di2 same False show ?thesis
            by (simp add: optimize_loop.simps[of sol i acc] turn_move_def
                str_head_grammar[OF gi] Let_def t cong: if_cong)
        qed
      qed
    qed
  qed
qed

lemma optimize_solution_merge_pass:
  "\<forall>m\<in>set sol. move_grammar m \<Longrightarrow> optimize_solution sol = Inr (merge_pass sol)"
  by (simp add: optimize_solution_def optimize_loop_merge_pass)


section \<open>The move engine on cube values and on cube objects\<close>

text \<open>
  From a store in which a cube reference holds a value unshared, \<^verbatim>\<open>apply_move\<close> on the
  reference does what \<open>apply_move\<close> does on the value: whenever the latter returns
  \<open>c'\<close>, the former returns a reference that holds \<open>c'\<close>, unshared again. The proof
  follows the source statement by statement.
\<close>

lemma sep_iff:
  "sep h fas \<longleftrightarrow> distinct fas \<and> (\<forall>fa\<in>set fas. distinct (face_rows h fa)) \<and>
     (\<forall>fa\<in>set fas. \<forall>fa'\<in>set fas. fa \<noteq> fa' \<longrightarrow> set (face_rows h fa) \<inter> set (face_rows h fa') = {})"
  by (auto simp add: sep_def list_all_iff)

lemma alive_face_iff:
  "alive_face h fa \<longleftrightarrow> map_of (face_objs h) fa = Some (face_rows h fa) \<and> fa < fresh h \<and>
     (\<forall>ra\<in>set (face_rows h fa). map_of (row_objs h) ra = Some (vrow h ra) \<and> ra < fresh h)"
  by (auto simp add: alive_face_def list_all_iff face_rows_def vrow_def split: option.splits)


lemma laid_keys: "laid h kv c \<Longrightarrow> map fst kv = map fst c"
  by (auto simp add: laid_def vcube_def)


































lemma new_rows:
  "\<exists>h'. mapM new_row rws h = (Inr [fresh h..<fresh h + length rws], h') \<and>
     fresh h' = fresh h + length rws \<and> face_objs h' = face_objs h \<and> dict_objs h' = dict_objs h \<and>
     (\<forall>a. map_of (row_objs h') a =
        (if fresh h \<le> a \<and> a < fresh h + length rws then Some (rws ! (a - fresh h))
         else map_of (row_objs h) a))"
proof (induction rws arbitrary: h)
  case Nil
  have "mapM new_row [] h = (Inr [], h)" by (simp add: ret_def)
  moreover have "map_of (row_objs h) a =
        (if fresh h \<le> a \<and> a < fresh h + length ([]::string list list) then Some ([] ! (a - fresh h))
         else map_of (row_objs h) a)" for a by auto
  ultimately show ?case by (intro exI[of _ h]) simp
next
  case (Cons row rest)
  define h1 where "h1 = h\<lparr>row_objs := (fresh h, row) # row_objs h, fresh := Suc (fresh h)\<rparr>"
  from Cons[of h1] obtain h' where h': "mapM new_row rest h1 = (Inr [fresh h1..<fresh h1 + length rest], h')"
    "fresh h' = fresh h1 + length rest" "face_objs h' = face_objs h1" "dict_objs h' = dict_objs h1"
    "\<And>a. map_of (row_objs h') a =
        (if fresh h1 \<le> a \<and> a < fresh h1 + length rest then Some (rest ! (a - fresh h1))
         else map_of (row_objs h1) a)" by blast
  have st: "fresh h1 = Suc (fresh h)" "face_objs h1 = face_objs h" "dict_objs h1 = dict_objs h"
    "\<And>a. map_of (row_objs h1) a = (if a = fresh h then Some row else map_of (row_objs h) a)"
    by (simp_all add: h1_def)
  have up: "[fresh h..<fresh h + length (row # rest)] = fresh h # [fresh h1..<fresh h1 + length rest]"
    using upt_conv_Cons[of "fresh h" "fresh h + Suc (length rest)"] by (simp add: st del: upt_Suc)
  have run: "mapM new_row (row # rest) h = (Inr [fresh h..<fresh h + length (row # rest)], h')"
    unfolding up using h'(1) by (simp add: bindM_def ret_def new_row_def h1_def[symmetric])
  have lk: "map_of (row_objs h') a =
        (if fresh h \<le> a \<and> a < fresh h + length (row # rest) then Some ((row # rest) ! (a - fresh h))
         else map_of (row_objs h) a)" for a
    by (auto simp add: h'(5) st nth_Cons' Suc_diff_le)
  from run lk h'(2-4) show ?case by (auto simp add: st)
qed















lemma ext_refl: "ext h h"
  by (simp add: ext_def)

lemma ext_trans: "ext h h1 \<Longrightarrow> ext h1 h2 \<Longrightarrow> ext h h2"
  by (auto simp add: ext_def)

lemma alive_ext:
  assumes "ext h h'" "alive_face h x"
  shows "alive_face h' x" "face_rows h' x = face_rows h x" "vface h' x = vface h x"
proof -
  from assms(2) have ax: "map_of (face_objs h) x = Some (face_rows h x)" "x < fresh h"
     "\<And>ra. ra \<in> set (face_rows h x) \<Longrightarrow> map_of (row_objs h) ra = Some (vrow h ra) \<and> ra < fresh h"
    by (auto simp add: alive_face_iff)
  from assms(1) ax(1,2) show 1: "face_rows h' x = face_rows h x"
    by (simp add: ext_def face_rows_def)
  have 2: "vrow h' ra = vrow h ra \<and> map_of (row_objs h') ra \<noteq> None \<and> ra < fresh h'"
    if "ra \<in> set (face_rows h x)" for ra
    using ax(3)[OF that] assms(1) by (auto simp add: ext_def vrow_def)
  then show "vface h' x = vface h x" by (simp add: vface_def 1)
  from assms(1) ax(1,2) 2 show "alive_face h' x"
    by (auto simp add: alive_face_def list_all_iff 1 ext_def)
qed


lemma sep_Cons:
  "sep h (x # xs) \<longleftrightarrow> x \<notin> set xs \<and> distinct (face_rows h x) \<and>
     (\<forall>y\<in>set xs. set (face_rows h x) \<inter> set (face_rows h y) = {}) \<and> sep h xs"
  unfolding sep_iff by (auto; blast)

lemma sep_cong:
  assumes "\<And>x. x \<in> set xs \<Longrightarrow> face_rows h' x = face_rows h x"
  shows "sep h' xs = sep h xs"
  unfolding sep_iff using assms by auto


lemma laid_ext:
  assumes "laid h kv c" "ext h h'"
  shows "laid h' kv c"
proof -
  have al: "alive_face h x" if "x \<in> set (map snd kv)" for x
    using assms(1) that by (auto simp add: laid_def list_all_iff)
  have "vface h' b = vface h b" if "(a, b) \<in> set kv" for a b
  proof -
    from that have "b \<in> set (map snd kv)" by force
    then show ?thesis by (rule alive_ext(3)[OF assms(2) al])
  qed
  then have "vcube h' kv = vcube h kv" unfolding vcube_def by (intro map_cong) auto
  moreover have "sep h' (map snd kv) = sep h (map snd kv)"
    by (rule sep_cong) (rule alive_ext(2)[OF assms(2) al])
  moreover have "list_all (alive_face h') (map snd kv)"
    using alive_ext(1)[OF assms(2) al] by (simp add: list_all_iff)
  ultimately show ?thesis using assms(1) by (simp add: laid_def)
qed






lemma store_faces_fresh:
  "\<exists>kv h'. mapM (\<lambda>(k, fc). bindM (store_face fc) (\<lambda>fa. ret (k, fa))) c h = (Inr kv, h') \<and>
     map fst kv = map fst c \<and> vcube h' kv = c \<and>
     list_all (alive_face h') (map snd kv) \<and> sep h' (map snd kv) \<and> ext h h' \<and>
     dict_objs h' = dict_objs h \<and>
     (\<forall>x\<in>set (map snd kv). fresh h \<le> x \<and> (\<forall>ra\<in>set (face_rows h' x). fresh h \<le> ra))"
proof (induction c arbitrary: h)
  case Nil
  show ?case
    by (intro exI[of _ "[]"] exI[of _ h]) (simp add: ret_def vcube_def sep_def ext_refl)
next
  case (Cons a c)
  obtain k fc where a: "a = (k, fc)" by (cases a)
  define n where "n = length fc"
  define m where "m = fresh h"
  define fa' where "fa' = m + n"
  from new_rows[of fc h] obtain h1 where h1:
    "mapM new_row fc h = (Inr [m..<m + n], h1)"
    "fresh h1 = m + n" "face_objs h1 = face_objs h" "dict_objs h1 = dict_objs h"
    "\<And>a. map_of (row_objs h1) a =
        (if m \<le> a \<and> a < m + n then Some (fc ! (a - m)) else map_of (row_objs h) a)"
    unfolding m_def n_def by blast
  define h2 where "h2 = h1\<lparr>face_objs := (fa', [m..<m + n]) # face_objs h1, fresh := Suc fa'\<rparr>"
  have st: "fresh h2 = Suc (m + n)" "dict_objs h2 = dict_objs h"
    "\<And>x. map_of (face_objs h2) x = (if x = fa' then Some [m..<m + n] else map_of (face_objs h) x)"
    "\<And>a. map_of (row_objs h2) a =
        (if m \<le> a \<and> a < m + n then Some (fc ! (a - m)) else map_of (row_objs h) a)"
    by (simp_all add: h2_def h1 fa'_def)
  have e2: "ext h h2" by (simp add: ext_def st m_def[symmetric] fa'_def)
  from Cons[of h2] obtain kv' h' where h':
    "mapM (\<lambda>(k, fc). bindM (store_face fc) (\<lambda>fa. ret (k, fa))) c h2 = (Inr kv', h')"
    "map fst kv' = map fst c" "vcube h' kv' = c"
    "list_all (alive_face h') (map snd kv')" "sep h' (map snd kv')" "ext h2 h'"
    "dict_objs h' = dict_objs h2"
    "\<And>x. x \<in> set (map snd kv') \<Longrightarrow> fresh h2 \<le> x \<and> (\<forall>ra\<in>set (face_rows h' x). fresh h2 \<le> ra)"
    by blast
  have run: "mapM (\<lambda>(k, fc). bindM (store_face fc) (\<lambda>fa. ret (k, fa))) (a # c) h
      = (Inr ((k, fa') # kv'), h')"
    using h1(1) h'(1)[unfolded h2_def fa'_def]
    by (simp add: a bindM_def ret_def store_face_def new_face_def h1(2) fa'_def)
  have a2: "alive_face h2 fa'"
    by (auto simp add: alive_face_def list_all_iff face_rows_def st fa'_def)
  have fr2: "face_rows h2 fa' = [m..<m + n]" by (simp add: face_rows_def st)
  have vf2: "vface h2 fa' = fc"
  proof -
    have "map (vrow h2) [m..<m + n] = fc"
    proof (rule nth_equalityI)
      show "length (map (vrow h2) [m..<m + n]) = length fc" by (simp add: n_def)
      fix i assume "i < length (map (vrow h2) [m..<m + n])"
      then have "i < n" by simp
      then show "map (vrow h2) [m..<m + n] ! i = fc ! i"
        by (simp add: vrow_def st n_def)
    qed
    then show ?thesis by (simp add: vface_def fr2)
  qed
  note ae = alive_ext[OF h'(6) a2]
  have vc: "vcube h' ((k, fa') # kv') = a # c"
    using h'(3) by (simp add: vcube_def a ae(3) vf2)
  have al: "list_all (alive_face h') (map snd ((k, fa') # kv'))" using h'(4) ae(1) by simp
  have s: "sep h' (map snd ((k, fa') # kv'))"
  proof -
    have "fa' \<notin> set (map snd kv')"
    proof
      assume "fa' \<in> set (map snd kv')"
      from h'(8)[OF this] show False by (simp add: st fa'_def)
    qed
    moreover have "distinct (face_rows h' fa')" by (simp add: ae(2) fr2)
    moreover have "set (face_rows h' fa') \<inter> set (face_rows h' y) = {}" if "y \<in> set (map snd kv')" for y
      using h'(8)[OF that] by (auto simp add: ae(2) fr2 st)
    ultimately show ?thesis using h'(5) by (simp add: sep_Cons)
  qed
  have e: "ext h h'" using e2 h'(6) by (rule ext_trans)
  have lb: "fresh h \<le> x \<and> (\<forall>ra\<in>set (face_rows h' x). fresh h \<le> ra)"
    if "x \<in> set (map snd ((k, fa') # kv'))" for x
  proof (cases "x = fa'")
    case True
    have "face_rows h' x = [m..<m + n]" by (simp add: True ae(2) fr2)
    then show ?thesis by (auto simp add: True fa'_def m_def)
  next
    case False
    with that have "x \<in> set (map snd kv')" by auto
    from h'(8)[OF this] show ?thesis by (auto simp add: st m_def)
  qed
  from run vc al s e lb h'(2,7) show ?case
    by (intro exI[of _ "(k, fa') # kv'"] exI[of _ h']) (simp add: a st)
qed

lemma store_cube_unshared:
  assumes "is_dict c"
  shows "\<exists>d h'. store_cube c h = (Inr d, h') \<and> unshared h' d c \<and> ext h h'"
proof -
  from store_faces_fresh[of c h] obtain kv h1 where h1:
    "mapM (\<lambda>(k, fc). bindM (store_face fc) (\<lambda>fa. ret (k, fa))) c h = (Inr kv, h1)"
    "vcube h1 kv = c" "list_all (alive_face h1) (map snd kv)" "sep h1 (map snd kv)" "ext h h1"
    by blast
  define h' where "h' = h1\<lparr>dict_objs := (fresh h1, kv) # dict_objs h1, fresh := Suc (fresh h1)\<rparr>"
  have run: "store_cube c h = (Inr (fresh h1), h')"
    using h1(1) by (simp add: store_cube_def bindM_def new_dict_def h'_def)
  have e1: "ext h1 h'" by (simp add: ext_def h'_def)
  have l1: "laid h1 kv c" using assms h1(2,3,4) by (simp add: laid_def)
  have l: "laid h' kv c" using l1 e1 by (rule laid_ext)
  have u: "unshared h' (fresh h1) c" using l by (simp add: unshared_def h'_def)
  have e: "ext h h'" using h1(5) e1 by (rule ext_trans)
  with run u show ?thesis by blast
qed





lemma solved_cube_valid: "is_dict solved_cube \<and> validate_cube solved_cube = Inr True"
  by code_simp












text \<open>
  Claim C7. On a log of move texts of the grammar the optimizer is the single pass
  \<open>merge_pass\<close>: a pair of adjacent moves of one face becomes the move of the summed
  turns modulo 4, nothing when the sum is 0, and the pass continues behind the pair;
  so \<^verbatim>\<open>["U","U","U"]\<close> becomes \<^verbatim>\<open>["U2","U"]\<close>. The four examples of the
  specification are evaluated.
\<close>

theorem optimize_solution_single_pass:
  "((\<forall>m\<in>set log. move_grammar m) \<longrightarrow> optimize_solution log = Inr (merge_pass log)) \<and>
   optimize_solution [''U'', ''U''] = Inr [''U2''] \<and>
   optimize_solution [''U'', ''U'' @ apo] = Inr [] \<and>
   optimize_solution [''U'', ''U2''] = Inr [''U'' @ apo] \<and>
   optimize_solution [''R'', ''R'' @ apo, ''F''] = Inr [''F''] \<and>
   optimize_solution [''U'', ''U'', ''U''] = Inr [''U2'', ''U'']"
proof -
  have "optimize_solution [''U'', ''U''] = Inr [''U2'']" by code_simp
  moreover have "optimize_solution [''U'', ''U'' @ apo] = Inr []" by code_simp
  moreover have "optimize_solution [''U'', ''U2''] = Inr [''U'' @ apo]" by code_simp
  moreover have "optimize_solution [''R'', ''R'' @ apo, ''F''] = Inr [''F'']" by code_simp
  moreover have "optimize_solution [''U'', ''U'', ''U''] = Inr [''U2'', ''U'']" by code_simp
  ultimately show ?thesis using optimize_solution_merge_pass[of log] by blast
qed

theorem optimize_solution_single_pass_witness:
  "list_all move_grammar [''D'', ''D2'', ''L'', ''L'' @ apo, ''B''] \<and>
   optimize_solution [''D'', ''D2'', ''L'', ''L'' @ apo, ''B''] = Inr [''D'' @ apo, ''B'']"
proof -
  have g: "list_all move_grammar [''D'', ''D2'', ''L'', ''L'' @ apo, ''B'']" by code_simp
  then have g': "\<forall>m\<in>set [''D'', ''D2'', ''L'', ''L'' @ apo, ''B'']. move_grammar m"
    unfolding list_all_iff .
  have m: "merge_pass [''D'', ''D2'', ''L'', ''L'' @ apo, ''B''] = [''D'' @ apo, ''B'']"
    by code_simp
  from optimize_solution_single_pass[of "[''D'', ''D2'', ''L'', ''L'' @ apo, ''B'']"] g' m
  have "optimize_solution [''D'', ''D2'', ''L'', ''L'' @ apo, ''B''] = Inr [''D'' @ apo, ''B'']"
    by simp
  with g show ?thesis by simp
qed

text \<open>
  Claim C8. On a structurally valid cube \<^verbatim>\<open>apply_move\<close> fails exactly when the move text
  is outside the grammar. An empty text or a first character outside \<^verbatim>\<open>UDFBLR\<close> raises
  the \<^verbatim>\<open>ValueError\<close> "Invalid move" (whatever the cube); a suffix other than the empty
  one, \<^verbatim>\<open>'\<close> and \<^verbatim>\<open>2\<close> raises the \<^verbatim>\<open>ValueError\<close> "Invalid move suffix".
\<close>

theorem apply_move_fails_iff_malformed:
  assumes "is_dict c" "validate_cube c = Inr True"
  shows "((\<exists>e. apply_move c m = Inl e) \<longleftrightarrow> \<not> move_grammar m) \<and>
     (move_grammar m \<longrightarrow> (\<exists>c'. apply_move c m = Inr c')) \<and>
     (m = [] \<or> hd m \<notin> set ''UDFBLR'' \<longrightarrow>
        apply_move c m = Inl (ValueError (''Invalid move: '' @ m))) \<and>
     (m \<noteq> [] \<and> hd m \<in> set ''UDFBLR'' \<and> tl m \<notin> {[], apo, ''2''} \<longrightarrow>
        apply_move c m = Inl (ValueError (''Invalid move suffix: '' @ tl m)))"
proof -
  from assms(2) have wf: "well_formed c" by (simp add: validate_cube_iff)
  have ok: "\<exists>c'. apply_move c m = Inr c'" if "move_grammar m"
    using apply_move_valid[OF assms(1) wf that] by blast
  have bad1: "apply_move c m = Inl (ValueError (''Invalid move: '' @ m))"
    if "m = [] \<or> hd m \<notin> set ''UDFBLR''"
    using that by (auto simp: apply_move_def)
  have bad2: "apply_move c m = Inl (ValueError (''Invalid move suffix: '' @ tl m))"
    if "m \<noteq> [] \<and> hd m \<in> set ''UDFBLR'' \<and> tl m \<notin> {[], apo, ''2''}"
  proof -
    from that have "move_suffix m = tl m" by (cases m) (auto simp: move_suffix_def)
    with that show ?thesis by (auto simp: apply_move_def Let_def)
  qed
  have "\<exists>e. apply_move c m = Inl e" if "\<not> move_grammar m"
  proof (cases "m = [] \<or> hd m \<notin> set ''UDFBLR''")
    case True
    with bad1 show ?thesis by blast
  next
    case False
    with that have "m \<noteq> [] \<and> hd m \<in> set ''UDFBLR'' \<and> tl m \<notin> {[], apo, ''2''}"
      by (cases m) (auto simp: move_grammar_def)
    with bad2 show ?thesis by blast
  qed
  with ok bad1 bad2 show ?thesis by (metis Inl_Inr_False)
qed

theorem apply_move_fails_iff_malformed_witness:
  "is_dict solved_cube \<and> validate_cube solved_cube = Inr True \<and>
   move_grammar ''U2'' \<and> (\<exists>c'. apply_move solved_cube ''U2'' = Inr c') \<and>
   \<not> move_grammar ''X'' \<and> apply_move solved_cube ''X'' = Inl (ValueError ''Invalid move: X'') \<and>
   \<not> move_grammar [] \<and> apply_move solved_cube [] = Inl (ValueError ''Invalid move: '') \<and>
   \<not> move_grammar ''U3'' \<and>
   apply_move solved_cube ''U3'' = Inl (ValueError ''Invalid move suffix: 3'')"
proof -
  have d: "is_dict solved_cube" and v: "validate_cube solved_cube = Inr True"
    using solved_cube_valid by simp_all
  have g: "move_grammar ''U2''" "\<not> move_grammar ''X''" "\<not> move_grammar []"
    "\<not> move_grammar ''U3''" by code_simp+
  from apply_move_fails_iff_malformed[OF d v, of "''U2''"]
    apply_move_fails_iff_malformed[OF d v, of "''X''"]
    apply_move_fails_iff_malformed[OF d v, of "[]"]
    apply_move_fails_iff_malformed[OF d v, of "''U3''"] d v g
  show ?thesis by simp
qed

text \<open>
  Claim C9. \<^verbatim>\<open>validate_cube\<close> returns \<^verbatim>\<open>True\<close> exactly on the well-formed states (key set
  exactly the six faces, every face a 3\<times>3 grid, at most six distinct tokens) and raises
  a \<^verbatim>\<open>ValueError\<close> exactly on the others. It rejects seven distinct tokens, a face of
  four rows and a missing face key, and it accepts a well-formed state that no legal
  turn sequence produces.
\<close>

theorem validate_cube_format_error:
  "(validate_cube cb = Inr True \<longleftrightarrow> well_formed cb) \<and>
   ((\<exists>msg. validate_cube cb = Inl (ValueError msg)) \<longleftrightarrow> \<not> well_formed cb) \<and>
   validate_cube cube_seven_colors =
     Inl (ValueError ''Cube contains more than 6 distinct colors'') \<and>
   validate_cube cube_four_rows = Inl (ValueError ''Face F must be a 3x3 matrix'') \<and>
   validate_cube cube_missing_face =
     Inl (ValueError ''Cube must have exactly U, D, F, B, L, R faces'') \<and>
   validate_cube cube_flipped_edge = Inr True"
proof -
  have "validate_cube cube_seven_colors =
      Inl (ValueError ''Cube contains more than 6 distinct colors'')" by code_simp
  moreover have "validate_cube cube_four_rows = Inl (ValueError ''Face F must be a 3x3 matrix'')"
    by code_simp
  moreover have "validate_cube cube_missing_face =
      Inl (ValueError ''Cube must have exactly U, D, F, B, L, R faces'')" by code_simp
  moreover have "validate_cube cube_flipped_edge = Inr True" by code_simp
  ultimately show ?thesis using validate_cube_iff[of cb] validate_cube_fail[of cb] by blast
qed

theorem validate_cube_format_error_witness:
  "validate_cube solved_cube = Inr True \<and> well_formed solved_cube \<and>
   \<not> well_formed cube_four_rows \<and> (\<exists>msg. validate_cube cube_four_rows = Inl (ValueError msg))"
  using validate_cube_format_error[of solved_cube] validate_cube_format_error[of cube_four_rows]
    solved_cube_valid
  by blast






end
